theory Spec2Isabelle
  imports Complex_Main "HOL-Library.Sublist" "HOL-Library.Multiset"
begin

section \<open>Python values used by \<open>reddit_news.py\<close>\<close>

text \<open>
  A Python \<open>str\<close> is modelled as a \<open>string\<close>; a \<open>char\<close> stands for a code point below 256.
  The characters the program treats specially get names.
\<close>

abbreviation DQ :: char where "DQ \<equiv> CHR 0x22"
abbreviation LF :: char where "LF \<equiv> CHR 0x0A"
abbreviation CR :: char where "CR \<equiv> CHR 0x0D"
abbreviation BSL :: char where "BSL \<equiv> CHR 0x5C"

text \<open>
  A Python \<open>float\<close> cell: a number or NaN (pandas' missing value). Every comparison with
  NaN is false. The literals \<open>0.2\<close> and \<open>-0.2\<close> of the source are the doubles nearest to
  one fifth; the double \<open>0.2\<close> lies above one fifth and its predecessor below, so on doubles
  the comparison with the literal and the comparison with the real number agree.
\<close>

datatype pyfloat = Float real | NaN

fun float_ge :: "pyfloat \<Rightarrow> real \<Rightarrow> bool" where
  "float_ge (Float x) y = (x \<ge> y)"
| "float_ge NaN y = False"

fun float_le :: "pyfloat \<Rightarrow> real \<Rightarrow> bool" where
  "float_le (Float x) y = (x \<le> y)"
| "float_le NaN y = False"

text \<open>
  An exception: the name of its class and the text \<open>str(e)\<close> gives. A clause
  \<open>except Exception\<close> catches the instances of \<open>Exception\<close>, that is every exception but those
  whose class derives from \<open>BaseException\<close> alone: of the built-in ones \<open>KeyboardInterrupt\<close>,
  \<open>SystemExit\<close> and \<open>GeneratorExit\<close>.
\<close>

datatype py_exception = Exc (exc_class: string) (exc_str: string)

definition is_Exception :: "py_exception \<Rightarrow> bool" where
  "is_Exception exn =
     (exc_class exn \<notin> set [''BaseException'', ''KeyboardInterrupt'', ''SystemExit'', ''GeneratorExit''])"

subsection \<open>\<open>str.replace\<close>, \<open>str.count\<close>, \<open>str.strip\<close>\<close>

text \<open>
  \<open>str.replace(old, new)\<close> and \<open>str.count(sub)\<close> scan from the left and never look at an
  occurrence that overlaps the one before it. The counter \<open>k\<close> is the number of characters
  of the last occurrence that are still to be skipped.
\<close>

fun replace_from :: "string \<Rightarrow> string \<Rightarrow> nat \<Rightarrow> string \<Rightarrow> string" where
  "replace_from old new k [] = []"
| "replace_from old new (Suc k) (c # cs) = replace_from old new k cs"
| "replace_from old new 0 (c # cs) =
     (if prefix old (c # cs) then new @ replace_from old new (length old - 1) cs
      else c # replace_from old new 0 cs)"

definition py_replace :: "string \<Rightarrow> string \<Rightarrow> string \<Rightarrow> string" where
  "py_replace old new s =
     (if old = [] then new @ concat (map (\<lambda>c. c # new) s)
      else replace_from old new 0 s)"

fun count_from :: "string \<Rightarrow> nat \<Rightarrow> string \<Rightarrow> nat" where
  "count_from sub k [] = 0"
| "count_from sub (Suc k) (c # cs) = count_from sub k cs"
| "count_from sub 0 (c # cs) =
     (if prefix sub (c # cs) then Suc (count_from sub (length sub - 1) cs)
      else count_from sub 0 cs)"

definition py_count :: "string \<Rightarrow> string \<Rightarrow> nat" where
  "py_count sub s = (if sub = [] then Suc (length s) else count_from sub 0 s)"

text \<open>
  \<open>str.isspace\<close> on the code points below 256: tab to carriage return, the four
  separators 0x1C to 0x1F, space, NEL and the no-break space.
\<close>

definition py_isspace :: "char \<Rightarrow> bool" where
  "py_isspace c =
     (let n = (of_char c :: nat)
      in (9 \<le> n \<and> n \<le> 13) \<or> (28 \<le> n \<and> n \<le> 32) \<or> n = 133 \<or> n = 160)"

definition py_strip :: "string \<Rightarrow> string" where
  "py_strip s = rev (dropWhile py_isspace (rev (dropWhile py_isspace s)))"

section \<open>The sentiment scorer\<close>

text \<open>\<open>_categorize_sentiment\<close> (lines 62 to 68).\<close>

definition categorize_sentiment :: "pyfloat \<Rightarrow> string" where
  "categorize_sentiment compound_score =
     (if float_ge compound_score 0.2 then ''Positive''
      else if float_le compound_score (- 0.2) then ''Negative''
      else ''Neutral'')"

text \<open>
  The analyzer's \<open>polarity_scores\<close> returns a dict with the keys \<open>neg\<close>, \<open>neu\<close>, \<open>pos\<close>
  and \<open>compound\<close>.
\<close>

record polarity =
  pol_neg :: pyfloat
  pol_neu :: pyfloat
  pol_pos :: pyfloat
  pol_compound :: pyfloat

text \<open>
  A value in a dict or in a cell of a frame is a string or a float; \<open>cell_str\<close> is its
  \<open>str()\<close>, the text of a float being a parameter. A Python dict with string keys is an
  association list in the order of insertion. A pandas \<open>DataFrame\<close> has its column labels,
  in order, and its rows; a row holds one cell for each column, under the column's label.
\<close>

datatype cell = Str string | Num pyfloat

fun cell_str :: "(pyfloat \<Rightarrow> string) \<Rightarrow> cell \<Rightarrow> string" where
  "cell_str float_str (Str s) = s"
| "cell_str float_str (Num x) = float_str x"

type_synonym pydict = "(string \<times> cell) list"

record frame =
  columns :: "string list"
  records :: "pydict list"

text \<open>
  \<open>analyze_sentiment\<close> (lines 47 to 60): the loop appends one dict per headline to
  \<open>results\<close>, and the frame is built from that list. The analyzer \<open>sia\<close> is a parameter.
\<close>

fun analyze_loop ::
  "(string \<Rightarrow> polarity) \<Rightarrow> string list \<Rightarrow> pydict list \<Rightarrow> pydict list" where
  "analyze_loop sia [] results = results"
| "analyze_loop sia (h # hs) results =
     (let pol_score = sia h
      in analyze_loop sia hs
           (results @
            [[(''headline'', Str h),
              (''negative'', Num (pol_neg pol_score)),
              (''neutral'', Num (pol_neu pol_score)),
              (''positive'', Num (pol_pos pol_score)),
              (''compound'', Num (pol_compound pol_score)),
              (''label'', Str (categorize_sentiment (pol_compound pol_score)))]]))"

text \<open>
  \<open>pd.DataFrame(results)\<close> for a list of dicts: the columns are the keys of the dicts in the
  order in which they first appear, and a key that a dict does not have gives a missing
  value, NaN. The empty list gives a frame without columns.
\<close>

fun first_seen :: "string list \<Rightarrow> string list \<Rightarrow> string list" where
  "first_seen seen [] = seen"
| "first_seen seen (k # ks) = first_seen (if k \<in> set seen then seen else seen @ [k]) ks"

definition dict_get :: "pydict \<Rightarrow> string \<Rightarrow> cell" where
  "dict_get d k = (case map_of d k of Some v \<Rightarrow> v | None \<Rightarrow> Num NaN)"

definition DataFrame :: "pydict list \<Rightarrow> frame" where
  "DataFrame results =
     (let cols = first_seen [] (concat (map (map fst) results))
      in \<lparr>columns = cols, records = map (\<lambda>d. map (\<lambda>k. (k, dict_get d k)) cols) results\<rparr>)"

definition analyze_sentiment :: "(string \<Rightarrow> polarity) \<Rightarrow> string list \<Rightarrow> frame" where
  "analyze_sentiment sia headlines = DataFrame (analyze_loop sia headlines [])"

text \<open>
  Lines 158 and 159 of the main block: \<open>sentiment_df[required_columns].dropna()\<close>. Selecting
  a list of columns raises \<open>KeyError\<close> when the frame lacks one of them (the text of the
  error is reduced to the first name that is missing) and otherwise gives the frame of
  these columns, in the order asked for; \<open>dropna\<close> removes each row that has a missing
  value in some cell.
\<close>

definition required_columns :: "string list" where
  "required_columns = [''headline'', ''negative'', ''neutral'', ''positive'', ''compound'', ''label'']"

definition select_columns :: "frame \<Rightarrow> string list \<Rightarrow> py_exception + frame" where
  "select_columns df wanted =
     (case filter (\<lambda>k. k \<notin> set (columns df)) wanted of
        [] \<Rightarrow>
          Inr \<lparr>columns = wanted,
               records = map (\<lambda>d. map (\<lambda>k. (k, dict_get d k)) wanted) (records df)\<rparr>
      | k # _ \<Rightarrow> Inl (Exc ''KeyError'' k))"

fun isna :: "pyfloat \<Rightarrow> bool" where
  "isna NaN = True"
| "isna (Float x) = False"

fun cell_isna :: "cell \<Rightarrow> bool" where
  "cell_isna (Num x) = isna x"
| "cell_isna (Str s) = False"

definition dropna :: "frame \<Rightarrow> frame" where
  "dropna df = df\<lparr>records := filter (\<lambda>d. list_all (\<lambda>v. \<not> cell_isna v) (map snd d)) (records df)\<rparr>"

text \<open>
  \<open>save_to_blob\<close> and \<open>_save_locally\<close> read the frame they are given by the names of its six
  columns (lines 97 and 107 to 112). They take the headline and the label as text, by
  the \<open>str(text)\<close> of line 73 and the writer's \<open>str()\<close> of a field, and hand the four scores to
  the writer. Such a frame is passed to them as the list of its rows, each a record of the
  values under the six names. The scores are floats in every frame that \<open>analyze_sentiment\<close>
  builds; a string in a score column has no float and is read as NaN.
\<close>

record sentiment_row =
  headline :: string
  negative :: pyfloat
  neutral :: pyfloat
  positive :: pyfloat
  compound :: pyfloat
  label :: string

type_synonym dataframe = "sentiment_row list"

fun cell_float :: "cell \<Rightarrow> pyfloat" where
  "cell_float (Num x) = x"
| "cell_float (Str s) = NaN"

definition frame_rows :: "(pyfloat \<Rightarrow> string) \<Rightarrow> frame \<Rightarrow> dataframe" where
  "frame_rows float_str df =
     map (\<lambda>d. \<lparr>headline = cell_str float_str (dict_get d ''headline''),
                negative = cell_float (dict_get d ''negative''),
                neutral = cell_float (dict_get d ''neutral''),
                positive = cell_float (dict_get d ''positive''),
                compound = cell_float (dict_get d ''compound''),
                label = cell_str float_str (dict_get d ''label'')\<rparr>) (records df)"

section \<open>Cleaning a headline\<close>

text \<open>\<open>_clean_headline\<close> (lines 70 to 77); \<open>str(text)\<close> of a \<open>str\<close> is the string itself.\<close>

definition clean_headline :: "string \<Rightarrow> string" where
  "clean_headline text =
     py_strip (py_replace [CR] '' '' (py_replace [LF] '' '' (py_replace [DQ] [DQ, DQ] text)))"

text \<open>
  The cleaning rule in the words of the specification, one character at a time: double
  every double quote, then turn every newline and carriage return into a space, then trim
  the whitespace at both ends.
\<close>

definition double_quotes :: "string \<Rightarrow> string" where
  "double_quotes s = concat (map (\<lambda>c. if c = DQ then [DQ, DQ] else [c]) s)"

definition newlines_to_spaces :: "string \<Rightarrow> string" where
  "newlines_to_spaces s = map (\<lambda>c. if c = LF \<or> c = CR then CHR '' '' else c) s"

fun trim_left :: "string \<Rightarrow> string" where
  "trim_left [] = []"
| "trim_left (c # cs) = (if py_isspace c then trim_left cs else c # cs)"

definition trim :: "string \<Rightarrow> string" where
  "trim s = rev (trim_left (rev (trim_left s)))"

definition cleaning_rule :: "string \<Rightarrow> string" where
  "cleaning_rule s = trim (newlines_to_spaces (double_quotes s))"

section \<open>The CSV writer and the validation\<close>

text \<open>
  \<open>csv.writer(f, quoting=csv.QUOTE_ALL, escapechar='\\')\<close> with the default dialect: every
  field is written between double quotes, a double quote inside a field is doubled, the
  escape character inside a field is written twice (as CPython does from version 3.10 on),
  fields are joined by a comma and the row ends with CR LF. A field that is not a \<open>str\<close> is
  written as its \<open>str()\<close>, which is \<open>cell_str\<close>.
\<close>

definition csv_escape :: "string \<Rightarrow> string" where
  "csv_escape s =
     concat (map (\<lambda>c. if c = DQ then [DQ, DQ] else if c = BSL then [BSL, BSL] else [c]) s)"

definition csv_quoted :: "string \<Rightarrow> string" where
  "csv_quoted s = DQ # csv_escape s @ [DQ]"

fun csv_join :: "string list \<Rightarrow> string" where
  "csv_join [] = []"
| "csv_join [f] = f"
| "csv_join (f # g # fs) = f @ CHR '','' # csv_join (g # fs)"

definition csv_record :: "(pyfloat \<Rightarrow> string) \<Rightarrow> cell list \<Rightarrow> string" where
  "csv_record float_str cells = csv_join (map (\<lambda>c. csv_quoted (cell_str float_str c)) cells)"

definition writerow :: "(pyfloat \<Rightarrow> string) \<Rightarrow> cell list \<Rightarrow> string" where
  "writerow float_str cells = csv_record float_str cells @ [CR, LF]"

text \<open>The list handed to \<open>writer.writerow\<close> for a row (lines 106 to 113).\<close>

definition row_cells :: "sentiment_row \<Rightarrow> cell list" where
  "row_cells row =
     [Str (headline row), Num (negative row), Num (neutral row), Num (positive row),
      Num (compound row), Str (label row)]"

definition header_cells :: "cell list" where
  "header_cells =
     [Str ''headline'', Str ''negative'', Str ''neutral'', Str ''positive'', Str ''compound'',
      Str ''label'']"

definition csv_text :: "(pyfloat \<Rightarrow> string) \<Rightarrow> dataframe \<Rightarrow> string" where
  "csv_text float_str df =
     writerow float_str header_cells @ concat (map (\<lambda>row. writerow float_str (row_cells row)) df)"

text \<open>
  Iterating over a file opened in text mode with the default \<open>newline=None\<close>: a line ends at
  LF, at CR LF or at a CR alone, and each of these ends is handed over as LF. The flag says
  that the character before was a CR, so that an LF coming now belongs to it.
\<close>

fun lines_from :: "bool \<Rightarrow> string \<Rightarrow> string \<Rightarrow> string list" where
  "lines_from after_cr cur [] = (if cur = [] then [] else [cur])"
| "lines_from after_cr cur (c # cs) =
     (if c = LF then
        (if after_cr then lines_from False cur cs
         else (cur @ [LF]) # lines_from False [] cs)
      else if c = CR then (cur @ [LF]) # lines_from True [] cs
      else lines_from False (cur @ [c]) cs)"

definition py_lines :: "string \<Rightarrow> string list" where
  "py_lines content = lines_from False [] content"

text \<open>The separator \<open>","\<close> that \<open>_validate_csv\<close> counts.\<close>

definition separator :: string where
  "separator = [DQ, CHR '','', DQ]"

text \<open>Decimal digits of a number, for the f-strings that print one.\<close>

definition digit_char :: "nat \<Rightarrow> char" where
  "digit_char d =
     (if d = 0 then CHR ''0'' else if d = 1 then CHR ''1'' else if d = 2 then CHR ''2''
      else if d = 3 then CHR ''3'' else if d = 4 then CHR ''4'' else if d = 5 then CHR ''5''
      else if d = 6 then CHR ''6'' else if d = 7 then CHR ''7'' else if d = 8 then CHR ''8''
      else CHR ''9'')"

fun str_nat :: "nat \<Rightarrow> string" where
  "str_nat n =
     (if n < 10 then [digit_char n]
      else str_nat (n div 10) @ [digit_char (n mod 10)])"

declare str_nat.simps [simp del]

section \<open>The world outside the program\<close>

text \<open>
  The state the program acts on: the files on the local disk (path to content), the text
  printed so far (one entry for each \<open>print\<close>), the containers of the storage account
  (container name to blob name to content) and the requests sent to the storage service,
  oldest first.
\<close>

datatype request =
  ContainerExists string
| CreateContainer string
| UploadBlob string string string

record world =
  files :: "string \<rightharpoonup> string"
  stdout :: "string list"
  containers :: "string \<rightharpoonup> (string \<rightharpoonup> string)"
  requests :: "request list"

text \<open>
  What the collaborators do during one run: the items the Reddit listing yields and the
  exception it ends with, if any; the order in which a Python \<open>set\<close> hands out its
  elements; the lexicon analyzer; the text of a float and of a frame; and, for each call
  into the file system or the storage SDK, the exception it raises, if any.
\<close>

record env =
  reddit_new :: "string \<Rightarrow> nat \<Rightarrow> string list \<times> py_exception option"
  set_order :: "string list \<Rightarrow> string list"
  polarity_scores :: "string \<Rightarrow> polarity"
  float_str :: "pyfloat \<Rightarrow> string"
  frame_str :: "frame \<Rightarrow> string"
  open_write_error :: "py_exception option"
  open_read_error :: "py_exception option"
  connect_error :: "py_exception option"
  exists_error :: "py_exception option"
  create_error :: "py_exception option"
  open_binary_error :: "py_exception option"
  upload_error :: "py_exception option"

definition print :: "string \<Rightarrow> world \<Rightarrow> world" where
  "print text w = w\<lparr>stdout := stdout w @ [text]\<rparr>"

text \<open>The two attributes \<open>__init__\<close> fixes (lines 25 and 32).\<close>

definition container_name :: string where
  "container_name = ''reddit-sentiment-data''"

definition local_backup_dir :: string where
  "local_backup_dir = ''reddit_data_backups''"

section \<open>Fetching headlines\<close>

text \<open>
  \<open>fetch_headlines\<close> (lines 35 to 45). The Python set \<open>headlines\<close> is a list without
  repetitions, in order of insertion; \<open>list(headlines)\<close> hands its elements out in the
  order \<open>set_order\<close> decides.
\<close>

definition set_add :: "'a \<Rightarrow> 'a list \<Rightarrow> 'a list" where
  "set_add x s = (if x \<in> set s then s else s @ [x])"

fun fetch_loop :: "string list \<Rightarrow> string list \<Rightarrow> world \<Rightarrow> string list \<times> world" where
  "fetch_loop [] headlines w = (headlines, w)"
| "fetch_loop (title # titles) headlines w =
     (let headlines' = set_add title headlines
      in fetch_loop titles headlines'
           (print (CR # ''Headlines collected: '' @ str_nat (length headlines')) w))"

text \<open>The body of the \<open>try\<close> block (lines 39 to 42), then the function with its handler.\<close>

definition fetch_steps ::
  "env \<Rightarrow> string \<Rightarrow> nat \<Rightarrow> world \<Rightarrow> (py_exception + string list) \<times> world" where
  "fetch_steps e subreddit limit w =
     (case reddit_new e subreddit limit of
        (titles, failure) \<Rightarrow>
          (case fetch_loop titles [] w of
             (headlines, w') \<Rightarrow>
               (case failure of
                  None \<Rightarrow> (Inr (set_order e headlines), w')
                | Some exn \<Rightarrow> (Inl exn, w'))))"

definition fetch_headlines ::
  "env \<Rightarrow> string \<Rightarrow> nat \<Rightarrow> world \<Rightarrow> (py_exception + string list) \<times> world" where
  "fetch_headlines e subreddit limit w =
     (case fetch_steps e subreddit limit w of
        (Inr headlines, w') \<Rightarrow> (Inr headlines, w')
      | (Inl exn, w') \<Rightarrow>
          if is_Exception exn then
            (Inr [], print (LF # ''Error fetching headlines: '' @ exc_str exn @ [LF]) w')
          else (Inl exn, w'))"

section \<open>Saving\<close>

text \<open>\<open>_generate_filename\<close> (lines 79 to 81).\<close>

definition generate_filename :: string where
  "generate_filename = ''reddit_news.csv''"

text \<open>
  \<open>_validate_csv\<close> (lines 83 to 90): the loop over the numbered lines stops at the first
  line whose count of separators is not 5.
\<close>

fun validate_lines :: "nat \<Rightarrow> string list \<Rightarrow> world \<Rightarrow> bool \<times> world" where
  "validate_lines i [] w = (True, w)"
| "validate_lines i (line # rest) w =
     (if py_count separator line \<noteq> 5 then
        (False,
         print (''Validation failed on line '' @ str_nat i @ '': '' @ py_strip line @ [LF]) w)
      else validate_lines (Suc i) rest w)"

definition validate_csv :: "env \<Rightarrow> string \<Rightarrow> world \<Rightarrow> (py_exception + bool) \<times> world" where
  "validate_csv e filepath w =
     (case open_read_error e of
        Some exn \<Rightarrow> (Inl exn, w)
      | None \<Rightarrow>
          (case files w filepath of
             None \<Rightarrow> (Inl (Exc ''FileNotFoundError'' filepath), w)
           | Some content \<Rightarrow>
               (case validate_lines 1 (py_lines content) w of (ok, w') \<Rightarrow> (Inr ok, w'))))"

text \<open>
  \<open>_save_locally\<close> (lines 92 to 115). The frame is the caller's object: the assignment to
  its \<open>headline\<close> column changes it, so the frame is returned with the result. Opening the
  file in mode \<open>'w'\<close> replaces what the path held.
\<close>

definition save_locally ::
  "env \<Rightarrow> dataframe \<Rightarrow> string \<Rightarrow> world \<Rightarrow> (py_exception + string) \<times> dataframe \<times> world" where
  "save_locally e df filename w =
     (let local_path = local_backup_dir @ ''/'' @ filename;
          df' = map (\<lambda>row. row\<lparr>headline := clean_headline (headline row)\<rparr>) df
      in case open_write_error e of
           Some exn \<Rightarrow> (Inl exn, df', w)
         | None \<Rightarrow>
             (Inr local_path, df',
              print (''Local backup saved to: '' @ local_path @ [LF])
                (w\<lparr>files := (files w)(local_path \<mapsto> csv_text (float_str e) df')\<rparr>)))"

text \<open>
  Step 3 of \<open>save_to_blob\<close> (lines 130 to 138): connect, look for the container, create it
  if it is not there, open the local file and upload it with \<open>overwrite=True\<close>.
\<close>

definition upload_file :: "env \<Rightarrow> string \<Rightarrow> string \<Rightarrow> world \<Rightarrow> (py_exception + unit) \<times> world" where
  "upload_file e local_path filename w =
     (case connect_error e of
        Some exn \<Rightarrow> (Inl exn, w)
      | None \<Rightarrow>
          (let w1 = w\<lparr>requests := requests w @ [ContainerExists container_name]\<rparr>
           in case exists_error e of
                Some exn \<Rightarrow> (Inl exn, w1)
              | None \<Rightarrow>
                  (case (if containers w1 container_name \<noteq> None then (Inr (), w1)
                         else
                           (let w2 = w1\<lparr>requests := requests w1 @ [CreateContainer container_name]\<rparr>
                            in case create_error e of
                                 Some exn \<Rightarrow> (Inl exn, w2)
                               | None \<Rightarrow>
                                   (Inr (),
                                    w2\<lparr>containers := (containers w2)(container_name \<mapsto> Map.empty)\<rparr>)))
                   of
                     (Inl exn, w3) \<Rightarrow> (Inl exn, w3)
                   | (Inr u, w3) \<Rightarrow>
                       (case open_binary_error e of
                          Some exn \<Rightarrow> (Inl exn, w3)
                        | None \<Rightarrow>
                            (case files w3 local_path of
                               None \<Rightarrow> (Inl (Exc ''FileNotFoundError'' local_path), w3)
                             | Some data \<Rightarrow>
                                 (let w4 = w3\<lparr>requests := requests w3 @
                                             [UploadBlob container_name filename data]\<rparr>
                                  in case upload_error e of
                                       Some exn \<Rightarrow> (Inl exn, w4)
                                     | None \<Rightarrow>
                                         (case containers w4 container_name of
                                            None \<Rightarrow>
                                              (Inl (Exc ''ResourceNotFoundError'' container_name), w4)
                                          | Some blobs \<Rightarrow>
                                              (Inr (),
                                               w4\<lparr>containers := (containers w4)
                                                    (container_name \<mapsto> blobs(filename \<mapsto> data))\<rparr>))))))))"

text \<open>The body of the \<open>try\<close> block of \<open>save_to_blob\<close> (lines 122 to 141).\<close>

definition save_steps ::
  "env \<Rightarrow> dataframe \<Rightarrow> string \<Rightarrow> world \<Rightarrow> (py_exception + bool) \<times> dataframe \<times> world" where
  "save_steps e df filename w =
     (case save_locally e df filename w of
        (Inl exn, df', w1) \<Rightarrow> (Inl exn, df', w1)
      | (Inr local_path, df', w1) \<Rightarrow>
          (case validate_csv e local_path w1 of
             (Inl exn, w2) \<Rightarrow> (Inl exn, df', w2)
           | (Inr ok, w2) \<Rightarrow>
               if \<not> ok then
                 (Inl (Exc ''ValueError'' ''CSV validation failed - incorrect column count''),
                  df', w2)
               else
                 (case upload_file e local_path filename w2 of
                    (Inl exn, w3) \<Rightarrow> (Inl exn, df', w3)
                  | (Inr u, w3) \<Rightarrow>
                      (Inr True, df',
                       print (''Successfully uploaded validated file: '' @ filename @ [LF]) w3))))"

text \<open>
  \<open>save_to_blob\<close> (lines 117 to 145): the \<open>except Exception\<close> clause turns an exception of
  the body that is an instance of \<open>Exception\<close> into the result \<open>False\<close>, after printing it.
  Any other exception leaves the function: the result \<open>Inl\<close>.
\<close>

definition save_to_blob ::
  "env \<Rightarrow> dataframe \<Rightarrow> world \<Rightarrow> (py_exception + bool) \<times> dataframe \<times> world" where
  "save_to_blob e df w =
     (let filename = generate_filename
      in case save_steps e df filename w of
           (Inr b, df', w') \<Rightarrow> (Inr b, df', w')
         | (Inl exn, df', w') \<Rightarrow>
             if is_Exception exn then
               (Inr False, df',
                print (LF # ''Error during save operation: '' @ exc_str exn @ [LF]) w')
             else (Inl exn, df', w'))"

section \<open>The main block\<close>

text \<open>
  Lines 147 to 170: fetch 500 headlines of the default subreddit and, when there are
  some, score them, keep the required columns, drop the rows with a missing value, print
  the first five rows and save. \<open>prepare_frame\<close> is lines 155 to 159, the frame that is handed
  to \<open>save_to_blob\<close>. An exception that nothing catches ends the program: the result \<open>Inl\<close>.
\<close>

definition prepare_frame :: "env \<Rightarrow> string list \<Rightarrow> py_exception + frame" where
  "prepare_frame e headlines =
     (let sentiment_df = analyze_sentiment (polarity_scores e) headlines
      in case select_columns sentiment_df required_columns of
           Inl exn \<Rightarrow> Inl exn
         | Inr selected \<Rightarrow> Inr (dropna selected))"

definition head :: "frame \<Rightarrow> frame" where
  "head df = df\<lparr>records := take 5 (records df)\<rparr>"

definition main :: "env \<Rightarrow> world \<Rightarrow> (py_exception + unit) \<times> world" where
  "main e w =
     (case fetch_headlines e ''politics'' 500 (print (''Fetching Reddit headlines...'' @ [LF]) w) of
        (Inl exn, w1) \<Rightarrow> (Inl exn, w1)
      | (Inr headlines, w1) \<Rightarrow>
          if headlines \<noteq> [] then
            (let w2 = print (LF # ''Analyzing sentiment...'' @ [LF]) w1
             in case prepare_frame e headlines of
                  Inl exn \<Rightarrow> (Inl exn, w2)
                | Inr sentiment_df \<Rightarrow>
                    (let w3 = print (LF # ''Sample results:'' @ [LF]) w2;
                         w4 = print (frame_str e (head sentiment_df) @ [LF]) w3;
                         w5 = print (LF # ''Saving data...'' @ [LF]) w4
                     in case save_to_blob e (frame_rows (float_str e) sentiment_df) w5 of
                          (Inl exn, df', w6) \<Rightarrow> (Inl exn, w6)
                        | (Inr ok, df', w6) \<Rightarrow>
                            (Inr (),
                             print ((if ok then ''Process completed successfully!''
                                     else ''Process completed with errors'') @ [LF]) w6)))
          else (Inr (), print (''No headlines were fetched'' @ [LF]) w1))"

section \<open>Notions used to state the properties\<close>

text \<open>
  A text without a double quote, a carriage return or a newline, as the \<open>str()\<close> of a float
  and the three labels are; a row whose cells other than the headline are such texts.
\<close>

definition plain_text :: "string \<Rightarrow> bool" where
  "plain_text s = (DQ \<notin> set s \<and> CR \<notin> set s \<and> LF \<notin> set s)"

definition plain_cells :: "(pyfloat \<Rightarrow> string) \<Rightarrow> sentiment_row \<Rightarrow> bool" where
  "plain_cells fmt r =
     (plain_text (fmt (negative r)) \<and> plain_text (fmt (neutral r)) \<and>
      plain_text (fmt (positive r)) \<and> plain_text (fmt (compound r)) \<and> plain_text (label r))"

text \<open>The frame as \<open>_save_locally\<close> leaves it: every headline cleaned.\<close>

definition cleaned :: "dataframe \<Rightarrow> dataframe" where
  "cleaned df = map (\<lambda>row. row\<lparr>headline := clean_headline (headline row)\<rparr>) df"

text \<open>The path \<open>os.path.join\<close> gives for the backup file.\<close>

definition backup_path :: string where
  "backup_path = ''reddit_data_backups/reddit_news.csv''"

text \<open>
  The record of a headline: the headline, its four scores and the label of its compound
  score, under the six column names in their fixed order. A row with a missing score.
\<close>

definition headline_record :: "(string \<Rightarrow> polarity) \<Rightarrow> string \<Rightarrow> pydict" where
  "headline_record sia h =
     [(''headline'', Str h),
      (''negative'', Num (pol_neg (sia h))),
      (''neutral'', Num (pol_neu (sia h))),
      (''positive'', Num (pol_pos (sia h))),
      (''compound'', Num (pol_compound (sia h))),
      (''label'', Str (categorize_sentiment (pol_compound (sia h))))]"

definition row_has_na :: "sentiment_row \<Rightarrow> bool" where
  "row_has_na r = (isna (negative r) \<or> isna (neutral r) \<or> isna (positive r) \<or> isna (compound r))"

text \<open>
  A structurally well-formed quoted row, as a reader for the writer's dialect sees it: every
  field stands between double quotes, inside a field a doubled quote is one quote and the
  escape character takes the next character as it is, fields are separated by one comma
  and the row ends with CR LF. The reader returns the fields, or nothing for any other text.
\<close>

datatype reader_state = Start_field | In_quoted | Quote_seen | Escape_seen

fun read_from :: "reader_state \<Rightarrow> string \<Rightarrow> string list \<Rightarrow> string \<Rightarrow> string list option" where
  "read_from st cur acc [] = None"
| "read_from Start_field cur acc (c # cs) =
     (if c = DQ then read_from In_quoted [] acc cs else None)"
| "read_from In_quoted cur acc (c # cs) =
     (if c = DQ then read_from Quote_seen cur acc cs
      else if c = BSL then read_from Escape_seen cur acc cs
      else read_from In_quoted (cur @ [c]) acc cs)"
| "read_from Escape_seen cur acc (c # cs) = read_from In_quoted (cur @ [c]) acc cs"
| "read_from Quote_seen cur acc (c # cs) =
     (if c = DQ then read_from In_quoted (cur @ [DQ]) acc cs
      else if c = CHR '','' then read_from Start_field [] (acc @ [cur]) cs
      else if c = CR \<and> cs = [LF] then Some (acc @ [cur])
      else None)"

definition read_row :: "string \<Rightarrow> string list option" where
  "read_row line = read_from Start_field [] [] line"

text \<open>
  All steps of \<open>save_to_blob\<close> succeed: no call raises and every line of the file written
  has five separators. The container is created only when it is not there yet.
\<close>

definition steps_succeed :: "env \<Rightarrow> dataframe \<Rightarrow> world \<Rightarrow> bool" where
  "steps_succeed e df w =
     (open_write_error e = None \<and> open_read_error e = None \<and>
      list_all (\<lambda>line. py_count separator line = 5) (py_lines (csv_text (float_str e) (cleaned df))) \<and>
      connect_error e = None \<and> exists_error e = None \<and>
      (containers w container_name = None \<longrightarrow> create_error e = None) \<and>
      open_binary_error e = None \<and> upload_error e = None)"

text \<open>
  The exception that ends the \<open>try\<close> block of \<open>save_to_blob\<close>, if any: the first one in the
  order of the steps, the failed validation being the \<open>ValueError\<close> of line 127.
\<close>

definition first_failure :: "env \<Rightarrow> dataframe \<Rightarrow> world \<Rightarrow> py_exception option" where
  "first_failure e df w =
     (case open_write_error e of Some exn \<Rightarrow> Some exn | None \<Rightarrow>
      (case open_read_error e of Some exn \<Rightarrow> Some exn | None \<Rightarrow>
       if \<not> list_all (\<lambda>line. py_count separator line = 5)
                (py_lines (csv_text (float_str e) (cleaned df)))
       then Some (Exc ''ValueError'' ''CSV validation failed - incorrect column count'')
       else
        (case connect_error e of Some exn \<Rightarrow> Some exn | None \<Rightarrow>
         (case exists_error e of Some exn \<Rightarrow> Some exn | None \<Rightarrow>
          (case (if containers w container_name = None then create_error e else None) of
             Some exn \<Rightarrow> Some exn
           | None \<Rightarrow>
              (case open_binary_error e of Some exn \<Rightarrow> Some exn | None \<Rightarrow> upload_error e))))))"

text \<open>
  Concrete collaborators, a world and rows on which the statements below are run. The
  listing repeats a title, and the scores of the title \<open>Broken\<close> are missing.
\<close>

definition demo_float_str :: "pyfloat \<Rightarrow> string" where
  "demo_float_str x =
     (case x of
        NaN \<Rightarrow> ''nan''
      | Float v \<Rightarrow>
          (if v = 0 then ''0.0'' else if v = 1 then ''1.0'' else if v = 1 / 2 then ''0.5''
           else if v = - 1 / 2 then ''-0.5'' else ''0.25''))"

definition demo_scores :: "string \<Rightarrow> polarity" where
  "demo_scores h =
     (if h = ''Good news today'' then
        \<lparr>pol_neg = Float 0, pol_neu = Float (1 / 2), pol_pos = Float (1 / 2), pol_compound = Float (1 / 2)\<rparr>
      else if h = ''Bad news today'' then
        \<lparr>pol_neg = Float (1 / 2), pol_neu = Float (1 / 2), pol_pos = Float 0, pol_compound = Float (- 1 / 2)\<rparr>
      else if h = ''Broken'' then
        \<lparr>pol_neg = NaN, pol_neu = NaN, pol_pos = NaN, pol_compound = NaN\<rparr>
      else
        \<lparr>pol_neg = Float 0, pol_neu = Float 1, pol_pos = Float 0, pol_compound = Float 0\<rparr>)"

definition demo_env :: env where
  "demo_env =
     \<lparr>reddit_new = (\<lambda>subreddit limit.
          ([''Good news today'', ''Bad news today'', ''Good news today'', ''Broken''], None)),
      set_order = rev,
      polarity_scores = demo_scores,
      float_str = demo_float_str,
      frame_str = (\<lambda>df. concat (columns df)),
      open_write_error = None,
      open_read_error = None,
      connect_error = None,
      exists_error = None,
      create_error = None,
      open_binary_error = None,
      upload_error = None\<rparr>"

definition demo_world :: world where
  "demo_world =
     \<lparr>files = [backup_path \<mapsto> ''old''],
      stdout = [],
      containers = Map.empty,
      requests = []\<rparr>"

definition demo_row :: "string \<Rightarrow> sentiment_row" where
  "demo_row h =
     \<lparr>headline = h, negative = Float 0, neutral = Float 1, positive = Float 0,
      compound = Float 0, label = ''Neutral''\<rparr>"

text \<open>The headlines \<open>He said "hi"\<close>, newline, \<open>there\<close> and \<open>a","b\<close>.\<close>

definition quoted_headline :: string where
  "quoted_headline = ''He said '' @ [DQ] @ ''hi'' @ [DQ, LF] @ ''there''"

definition separator_headline :: string where
  "separator_headline = ''a'' @ separator @ ''b''"

text \<open>
  The same collaborators with an upload that fails, with an upload that is interrupted from
  the keyboard, and with a listing that fails.
\<close>

definition interrupted_upload_env :: env where
  "interrupted_upload_env = demo_env\<lparr>upload_error := Some (Exc ''KeyboardInterrupt'' [])\<rparr>"

definition failing_upload_env :: env where
  "failing_upload_env = demo_env\<lparr>upload_error := Some (Exc ''HttpResponseError'' ''timed out'')\<rparr>"

definition failing_listing_env :: env where
  "failing_listing_env =
     demo_env\<lparr>reddit_new := (\<lambda>subreddit limit.
        ([''Good news today''], Some (Exc ''ResponseException'' ''received 401 HTTP response'')))\<rparr>"

definition empty_listing_env :: env where
  "empty_listing_env = demo_env\<lparr>reddit_new := (\<lambda>subreddit limit. ([], None))\<rparr>"

definition failing_write_env :: env where
  "failing_write_env = demo_env\<lparr>open_write_error := Some (Exc ''PermissionError'' ''Permission denied'')\<rparr>"

section \<open>Auxiliary facts\<close>

subsection \<open>Cleaning, counting separators and splitting lines\<close>

lemma replace_char: "replace_from [a] new 0 s = concat (map (\<lambda>c. if c = a then new else [c]) s)"
  by (induction s) auto

lemma concat_map_single: "concat (map (\<lambda>c. if c = a then [b] else [c]) s) = map (\<lambda>c. if c = a then b else c) s"
  by (induction s) auto

lemma trim_left_dropWhile: "trim_left s = dropWhile py_isspace s"
  by (induction s) auto

lemma py_replace_quotes: "py_replace [DQ] [DQ, DQ] s = double_quotes s"
  by (simp add: py_replace_def replace_char double_quotes_def)

lemma py_replace_newlines:
  "py_replace [CR] '' '' (py_replace [LF] '' '' s) = newlines_to_spaces s"
proof -
  have "py_replace [LF] '' '' s = map (\<lambda>c. if c = LF then CHR '' '' else c) s"
    by (simp add: py_replace_def replace_char concat_map_single)
  moreover have "py_replace [CR] '' '' t = map (\<lambda>c. if c = CR then CHR '' '' else c) t" for t
    by (simp add: py_replace_def replace_char concat_map_single)
  ultimately show ?thesis
    by (simp add: newlines_to_spaces_def)
qed

lemma py_strip_trim: "py_strip s = trim s"
  by (simp add: py_strip_def trim_def trim_left_dropWhile)

lemma clean_refines: "clean_headline s = cleaning_rule s"
  by (simp add: clean_headline_def cleaning_rule_def py_replace_quotes py_replace_newlines py_strip_trim)

lemma csv_escape_no_quote: "DQ \<notin> set s \<Longrightarrow> DQ \<notin> set (csv_escape s)"
  by (induction s) (auto simp: csv_escape_def)

lemma count_skip_plain: "DQ \<notin> set s \<Longrightarrow> count_from separator 0 (s @ t) = count_from separator 0 t"
  by (induction s) (auto simp: separator_def)

lemma count_separator: "count_from separator 0 (DQ # CHR '','' # DQ # t) = Suc (count_from separator 0 t)"
  by (simp add: separator_def)

lemma count_field:
  assumes "DQ \<notin> set a"
  shows "count_from separator 0 (csv_escape a @ DQ # CHR '','' # DQ # t) = Suc (count_from separator 0 t)"
proof -
  have "DQ \<notin> set (csv_escape a)"
    using assms by (rule csv_escape_no_quote)
  then have "count_from separator 0 (csv_escape a @ DQ # CHR '','' # DQ # t)
      = count_from separator 0 (DQ # CHR '','' # DQ # t)"
    by (rule count_skip_plain)
  also have "\<dots> = Suc (count_from separator 0 t)"
    by (rule count_separator)
  finally show ?thesis .
qed

lemma count_none: "DQ \<notin> set t \<Longrightarrow> count_from separator 0 t = 0"
  using count_skip_plain [of t "[]"] by simp

lemma count_closing:
  assumes "DQ \<notin> set t"
  shows "count_from separator 0 (DQ # t) = 0"
proof -
  have "\<not> prefix separator (DQ # t)"
    using assms by (auto simp: separator_def prefix_def)
  then have "count_from separator 0 (DQ # t) = count_from separator 0 t"
    by simp
  also have "\<dots> = 0"
    using assms by (rule count_none)
  finally show ?thesis .
qed

lemma count_last:
  assumes "DQ \<notin> set l" "DQ \<notin> set t"
  shows "count_from separator 0 (csv_escape l @ DQ # t) = 0"
proof -
  have "DQ \<notin> set (csv_escape l)"
    using assms(1) by (rule csv_escape_no_quote)
  then have "count_from separator 0 (csv_escape l @ DQ # t) = count_from separator 0 (DQ # t)"
    by (rule count_skip_plain)
  also have "\<dots> = 0"
    using assms(2) by (rule count_closing)
  finally show ?thesis .
qed

lemma count_tail:
  assumes "DQ \<notin> set a" "DQ \<notin> set b" "DQ \<notin> set c" "DQ \<notin> set d" "DQ \<notin> set l" "DQ \<notin> set t"
  shows "count_from separator 0
           (csv_escape a @ DQ # CHR '','' # DQ # csv_escape b @ DQ # CHR '','' # DQ # csv_escape c @
            DQ # CHR '','' # DQ # csv_escape d @ DQ # CHR '','' # DQ # csv_escape l @ DQ # t) = 4"
  by (simp only: count_field [OF assms(1)] count_field [OF assms(2)] count_field [OF assms(3)]
      count_field [OF assms(4)] count_last [OF assms(5) assms(6)])

lemma csv_record_row:
  "csv_record fmt (row_cells r) @ t =
     DQ # csv_escape (headline r) @ DQ # CHR '','' # DQ # csv_escape (fmt (negative r)) @
     DQ # CHR '','' # DQ # csv_escape (fmt (neutral r)) @ DQ # CHR '','' # DQ # csv_escape (fmt (positive r)) @
     DQ # CHR '','' # DQ # csv_escape (fmt (compound r)) @ DQ # CHR '','' # DQ # csv_escape (label r) @ DQ # t"
  by (simp add: csv_record_def row_cells_def csv_quoted_def)

lemma set_csv_escape: "set (csv_escape s) = set s"
  by (induction s) (auto simp: csv_escape_def)

lemma lines_from_line:
  "CR \<notin> set s \<Longrightarrow> LF \<notin> set s \<Longrightarrow>
   lines_from False cur (s @ CR # LF # rest) = (cur @ s @ [LF]) # lines_from False [] rest"
  by (induction s arbitrary: cur) auto

lemma example_count:
  assumes "DQ \<notin> set (fmt (negative r))" "DQ \<notin> set (fmt (neutral r))" "DQ \<notin> set (fmt (positive r))"
     "DQ \<notin> set (fmt (compound r))" "DQ \<notin> set (label r)" "DQ \<notin> set t"
   and "headline r = ''He said '' @ [DQ, DQ] @ ''hi'' @ [DQ, DQ] @ '' there''"
  shows "count_from separator 0 (csv_record fmt (row_cells r) @ t) = 5"
proof -
  let ?T = "csv_escape (fmt (negative r)) @
     DQ # CHR '','' # DQ # csv_escape (fmt (neutral r)) @ DQ # CHR '','' # DQ # csv_escape (fmt (positive r)) @
     DQ # CHR '','' # DQ # csv_escape (fmt (compound r)) @ DQ # CHR '','' # DQ # csv_escape (label r) @ DQ # t"
  have "count_from separator 0 (DQ # csv_escape (headline r) @ DQ # CHR '','' # DQ # ?T) = Suc (count_from separator 0 ?T)"
    unfolding assms(7) by (simp add: csv_escape_def separator_def)
  also have "count_from separator 0 ?T = 4"
    using assms(1-6) by (rule count_tail)
  finally show ?thesis
    by (simp only: csv_record_row)
qed

lemma count_header: "py_count separator (csv_record fmt header_cells @ [LF]) = 5"
  by (simp add: py_count_def separator_def csv_record_def header_cells_def csv_quoted_def csv_escape_def)

lemma header_no_newline:
  "CR \<notin> set (csv_record fmt header_cells) \<and> LF \<notin> set (csv_record fmt header_cells)"
  by (simp add: csv_record_def header_cells_def csv_quoted_def csv_escape_def)

lemma set_csv_record_row:
  "set (csv_record fmt (row_cells r)) =
     {DQ, CHR '',''} \<union> set (headline r) \<union> set (fmt (negative r)) \<union> set (fmt (neutral r)) \<union>
     set (fmt (positive r)) \<union> set (fmt (compound r)) \<union> set (label r)"
proof -
  have "set (csv_record fmt (row_cells r)) = set (csv_record fmt (row_cells r) @ [])"
    by simp
  also have "\<dots> = {DQ, CHR '',''} \<union> set (headline r) \<union> set (fmt (negative r)) \<union> set (fmt (neutral r)) \<union>
     set (fmt (positive r)) \<union> set (fmt (compound r)) \<union> set (label r)"
    unfolding csv_record_row by (auto simp: set_csv_escape)
  finally show ?thesis .
qed

lemma lines_rows:
  assumes "\<forall>r \<in> set df. CR \<notin> set (csv_record fmt (row_cells r)) \<and> LF \<notin> set (csv_record fmt (row_cells r))"
  shows "lines_from False [] (concat (map (\<lambda>row. writerow fmt (row_cells row)) df))
       = map (\<lambda>r. csv_record fmt (row_cells r) @ [LF]) df"
  using assms
proof (induction df)
  case Nil
  then show ?case by simp
next
  case (Cons r df)
  then show ?case
    using lines_from_line [of "csv_record fmt (row_cells r)" "[]"]
    by (simp add: writerow_def)
qed

lemma py_lines_csv_text:
  assumes "\<forall>r \<in> set df. CR \<notin> set (csv_record fmt (row_cells r)) \<and> LF \<notin> set (csv_record fmt (row_cells r))"
  shows "py_lines (csv_text fmt df)
       = (csv_record fmt header_cells @ [LF]) # map (\<lambda>r. csv_record fmt (row_cells r) @ [LF]) df"
  using lines_from_line [of "csv_record fmt header_cells" "[]"] header_no_newline [of fmt] lines_rows [OF assms]
  by (simp add: py_lines_def csv_text_def writerow_def)

lemma set_trim_left: "set (trim_left s) \<subseteq> set s"
  by (induction s) auto

lemma set_trim: "set (trim s) \<subseteq> set s"
  using set_trim_left [of s] set_trim_left [of "rev (trim_left s)"] by (auto simp: trim_def)

lemma clean_headline_no_newline: "CR \<notin> set (clean_headline h) \<and> LF \<notin> set (clean_headline h)"
proof -
  have "CR \<notin> set (newlines_to_spaces s) \<and> LF \<notin> set (newlines_to_spaces s)" for s
    by (auto simp: newlines_to_spaces_def)
  then show ?thesis
    using set_trim [of "newlines_to_spaces (double_quotes h)"]
    unfolding clean_refines cleaning_rule_def by blast
qed

lemma cleaned_row_one_line:
  assumes "plain_cells fmt r"
  shows "CR \<notin> set (csv_record fmt (row_cells (r\<lparr>headline := clean_headline (headline r)\<rparr>)))
       \<and> LF \<notin> set (csv_record fmt (row_cells (r\<lparr>headline := clean_headline (headline r)\<rparr>)))"
  using assms clean_headline_no_newline [of "headline r"]
  by (simp add: set_csv_record_row plain_cells_def plain_text_def)

lemma quoted_headline_cleaned:
  "clean_headline quoted_headline = ''He said '' @ [DQ, DQ] @ ''hi'' @ [DQ, DQ] @ '' there''"
  by (simp add: quoted_headline_def clean_headline_def py_replace_def py_strip_def py_isspace_def)

lemma save_locally_ok:
  assumes "open_write_error e = None"
  shows "save_locally e df generate_filename w =
     (Inr backup_path, cleaned df,
      print (''Local backup saved to: '' @ backup_path @ [LF])
        (w\<lparr>files := (files w)(backup_path \<mapsto> csv_text (float_str e) (cleaned df))\<rparr>))"
  using assms
  by (simp add: save_locally_def Let_def cleaned_def backup_path_def local_backup_dir_def generate_filename_def)

lemma validate_lines_all:
  "list_all (\<lambda>line. py_count separator line = 5) ls \<Longrightarrow> validate_lines i ls w = (True, w)"
  by (induction ls arbitrary: i) auto

subsection \<open>The reader gets back what the writer wrote\<close>

lemma read_escaped:
  "read_from In_quoted cur acc (csv_escape s @ DQ # rest) = read_from Quote_seen (cur @ s) acc rest"
  by (induction s arbitrary: cur) (auto simp: csv_escape_def)

lemma read_quoted:
  "read_from Start_field cur acc (csv_quoted s @ rest) = read_from Quote_seen s acc rest"
  using read_escaped [of "[]" acc s rest] by (simp add: csv_quoted_def)

lemma read_joined:
  "fs \<noteq> [] \<Longrightarrow>
   read_from Start_field cur acc (csv_join (map csv_quoted fs) @ [CR, LF]) = Some (acc @ fs)"
proof (induction fs arbitrary: cur acc rule: csv_join.induct)
  case 1
  then show ?case by simp
next
  case (2 f)
  show ?case
    using read_quoted [of cur acc f "[CR, LF]"] by simp
next
  case (3 f g fs)
  have "read_from Start_field cur acc (csv_join (map csv_quoted (f # g # fs)) @ [CR, LF])
      = read_from Quote_seen f acc (CHR '','' # csv_join (map csv_quoted (g # fs)) @ [CR, LF])"
    using read_quoted [of cur acc f "CHR '','' # csv_join (map csv_quoted (g # fs)) @ [CR, LF]"]
    by simp
  also have "\<dots> = read_from Start_field [] (acc @ [f]) (csv_join (map csv_quoted (g # fs)) @ [CR, LF])"
    by simp
  also have "\<dots> = Some ((acc @ [f]) @ g # fs)"
    using "3.IH" [of "[]" "acc @ [f]"] by simp
  finally show ?case by simp
qed

lemma read_row_writerow:
  "cells \<noteq> [] \<Longrightarrow> read_row (writerow fmt cells) = Some (map (cell_str fmt) cells)"
  using read_joined [of "map (cell_str fmt) cells" "[]" "[]"]
  by (simp add: read_row_def writerow_def csv_record_def comp_def)

lemma separator_headline_cleaned:
  "clean_headline separator_headline = ''a'' @ [DQ] @ separator @ [DQ] @ ''b''"
  by (simp add: separator_headline_def separator_def clean_headline_def py_replace_def py_strip_def py_isspace_def)

lemma separator_count:
  assumes "DQ \<notin> set (fmt (negative r))" "DQ \<notin> set (fmt (neutral r))" "DQ \<notin> set (fmt (positive r))"
     "DQ \<notin> set (fmt (compound r))" "DQ \<notin> set (label r)" "DQ \<notin> set t"
   and "headline r = ''a'' @ [DQ] @ separator @ [DQ] @ ''b''"
  shows "count_from separator 0 (csv_record fmt (row_cells r) @ t) = 6"
proof -
  let ?T = "csv_escape (fmt (negative r)) @
     DQ # CHR '','' # DQ # csv_escape (fmt (neutral r)) @ DQ # CHR '','' # DQ # csv_escape (fmt (positive r)) @
     DQ # CHR '','' # DQ # csv_escape (fmt (compound r)) @ DQ # CHR '','' # DQ # csv_escape (label r) @ DQ # t"
  have "count_from separator 0 (DQ # csv_escape (headline r) @ DQ # CHR '','' # DQ # ?T)
      = Suc (Suc (count_from separator 0 ?T))"
    unfolding assms(7) by (simp add: csv_escape_def separator_def)
  also have "count_from separator 0 ?T = 4"
    using assms(1-6) by (rule count_tail)
  finally show ?thesis
    by (simp only: csv_record_row)
qed

lemma validate_lines_bad:
  "\<not> list_all (\<lambda>line. py_count separator line = 5) ls \<Longrightarrow> fst (validate_lines i ls w) = False"
  by (induction ls arbitrary: i) auto

subsection \<open>Validation and the handler of \<open>save_to_blob\<close>\<close>

lemma validate_lines_files: "files (snd (validate_lines i ls w)) = files w"
  by (induction ls arbitrary: i) (auto simp: print_def)

lemma validate_lines_requests: "requests (snd (validate_lines i ls w)) = requests w"
  by (induction ls arbitrary: i) (auto simp: print_def)

lemma validate_lines_containers: "containers (snd (validate_lines i ls w)) = containers w"
  by (induction ls arbitrary: i) (auto simp: print_def)

lemma validate_csv_frame:
  "files (snd (validate_csv e p w)) = files w \<and>
   requests (snd (validate_csv e p w)) = requests w \<and>
   containers (snd (validate_csv e p w)) = containers w"
  using validate_lines_files validate_lines_requests validate_lines_containers
  by (auto simp: validate_csv_def split: option.splits prod.splits)
     (metis snd_conv)+

lemma validate_csv_bad:
  assumes "files w p = Some content"
    and "\<not> list_all (\<lambda>line. py_count separator line = 5) (py_lines content)"
  shows "fst (validate_csv e p w) \<noteq> Inr True"
  using assms validate_lines_bad [of "py_lines content" 1 w]
  by (auto simp: validate_csv_def split: option.splits prod.splits)

lemma validate_csv_result:
  assumes "files w p = Some content" and "open_read_error e = None"
  shows "fst (validate_csv e p w) = Inr (list_all (\<lambda>line. py_count separator line = 5) (py_lines content))"
proof (cases "list_all (\<lambda>line. py_count separator line = 5) (py_lines content)")
  case True
  then show ?thesis
    using assms validate_lines_all [of "py_lines content" 1 w]
    by (simp add: validate_csv_def)
next
  case False
  then show ?thesis
    using assms validate_lines_bad [of "py_lines content" 1 w]
    by (cases "validate_lines 1 (py_lines content) w") (simp add: validate_csv_def)
qed

lemma is_Exception_ValueError: "is_Exception (Exc ''ValueError'' msg)"
  by (simp add: is_Exception_def)

lemma is_Exception_FileNotFoundError: "is_Exception (Exc ''FileNotFoundError'' msg)"
  by (simp add: is_Exception_def)

lemma validate_csv_raised:
  assumes "fst (validate_csv e p w) = Inl exn"
  shows "open_read_error e = Some exn \<or> is_Exception exn"
  using assms is_Exception_FileNotFoundError
  by (auto simp: validate_csv_def split: option.splits prod.splits)

lemma save_steps_invalid:
  assumes "save_locally e df generate_filename w = (Inr path, df1, w1)"
    and "fst (validate_csv e path w1) \<noteq> Inr True"
  shows "\<exists>exn. save_steps e df generate_filename w = (Inl exn, df1, snd (validate_csv e path w1))
           \<and> (open_read_error e = Some exn \<or> is_Exception exn)"
proof (cases "validate_csv e path w1")
  case (Pair res w2)
  show ?thesis
  proof (cases res)
    case (Inl exn)
    then have "open_read_error e = Some exn \<or> is_Exception exn"
      using validate_csv_raised [of e path w1 exn] Pair by simp
    then show ?thesis
      using assms(1) Pair Inl by (simp add: save_steps_def)
  next
    case (Inr ok)
    then have "\<not> ok"
      using assms(2) Pair by simp
    then show ?thesis
      using assms(1) Pair Inr is_Exception_ValueError by (simp add: save_steps_def)
  qed
qed

lemma save_to_blob_raised:
  assumes "save_steps e df generate_filename w = (Inl exn, df', w')" and "is_Exception exn"
  shows "save_to_blob e df w =
           (Inr False, df', print (LF # ''Error during save operation: '' @ exc_str exn @ [LF]) w')"
  using assms by (simp add: save_to_blob_def)

lemma save_to_blob_escaped:
  assumes "save_steps e df generate_filename w = (Inl exn, df', w')" and "\<not> is_Exception exn"
  shows "save_to_blob e df w = (Inl exn, df', w')"
  using assms by (simp add: save_to_blob_def)

lemma save_to_blob_returned:
  assumes "save_steps e df generate_filename w = (Inr b, df', w')"
  shows "save_to_blob e df w = (Inr b, df', w')"
  using assms by (simp add: save_to_blob_def)

lemma save_locally_frame:
  "requests (snd (snd (save_locally e df f w))) = requests w \<and>
   containers (snd (snd (save_locally e df f w))) = containers w \<and>
   fst (snd (save_locally e df f w)) = cleaned df"
  by (simp add: save_locally_def Let_def print_def cleaned_def split: option.splits)

lemma print_frame:
  "files (print t w) = files w \<and> requests (print t w) = requests w \<and>
   containers (print t w) = containers w \<and> stdout (print t w) = stdout w @ [t]"
  by (simp add: print_def)

subsection \<open>When the steps of a save succeed\<close>

lemma upload_file_ok:
  "fst (upload_file e p f w) = Inr () \<longleftrightarrow>
     (connect_error e = None \<and> exists_error e = None \<and>
      (containers w container_name = None \<longrightarrow> create_error e = None) \<and>
      open_binary_error e = None \<and> files w p \<noteq> None \<and> upload_error e = None)"
  by (auto simp: upload_file_def Let_def split: option.splits)

lemma save_steps_never_False: "fst (save_steps e df f w) \<noteq> Inr False"
  by (auto simp: save_steps_def split: prod.splits sum.splits)

lemma save_steps_True:
  "fst (save_steps e df generate_filename w) = Inr True \<longleftrightarrow> steps_succeed e df w"
proof (cases "open_write_error e")
  case (Some exn)
  then show ?thesis
    by (simp add: save_steps_def save_locally_def Let_def steps_succeed_def)
next
  case None
  let ?w1 = "print (''Local backup saved to: '' @ backup_path @ [LF])
        (w\<lparr>files := (files w)(backup_path \<mapsto> csv_text (float_str e) (cleaned df))\<rparr>)"
  have written: "save_locally e df generate_filename w = (Inr backup_path, cleaned df, ?w1)"
    using None by (rule save_locally_ok)
  have content: "files ?w1 backup_path = Some (csv_text (float_str e) (cleaned df))"
    by (simp add: print_def)
  show ?thesis
  proof (cases "open_read_error e")
    case (Some exn)
    then show ?thesis
      using written by (simp add: save_steps_def validate_csv_def steps_succeed_def)
  next
    case read: None
    let ?ok = "list_all (\<lambda>line. py_count separator line = 5) (py_lines (csv_text (float_str e) (cleaned df)))"
    obtain w2 where v: "validate_csv e backup_path ?w1 = (Inr ?ok, w2)"
      using validate_csv_result [OF content read] by (metis prod.collapse)
    have w2: "files w2 = files ?w1" "containers w2 = containers w"
      using validate_csv_frame [of e backup_path ?w1] v by (simp_all add: print_def)
    show ?thesis
    proof (cases ?ok)
      case False
      then show ?thesis
        using written v by (simp add: save_steps_def steps_succeed_def)
    next
      case True
      have "fst (save_steps e df generate_filename w) = Inr True
          \<longleftrightarrow> fst (upload_file e backup_path generate_filename w2) = Inr ()"
        using written v True
        by (cases "upload_file e backup_path generate_filename w2")
           (auto simp: save_steps_def split: sum.splits)
      then show ?thesis
        using None read True w2 content
        by (simp add: upload_file_ok steps_succeed_def)
    qed
  qed
qed

lemma upload_file_result:
  assumes "files w p = Some data"
  shows "fst (upload_file e p f w) =
     (case connect_error e of Some exn \<Rightarrow> Inl exn | None \<Rightarrow>
         (case exists_error e of Some exn \<Rightarrow> Inl exn | None \<Rightarrow>
          (case (if containers w container_name = None then create_error e else None) of
             Some exn \<Rightarrow> Inl exn
           | None \<Rightarrow>
              (case open_binary_error e of Some exn \<Rightarrow> Inl exn | None \<Rightarrow>
                 (case upload_error e of Some exn \<Rightarrow> Inl exn | None \<Rightarrow> Inr ())))))"
  using assms by (auto simp: upload_file_def Let_def split: option.splits)

lemma save_steps_result:
  "fst (save_steps e df generate_filename w) =
     (case first_failure e df w of None \<Rightarrow> Inr True | Some exn \<Rightarrow> Inl exn)"
proof (cases "open_write_error e")
  case (Some exn)
  then show ?thesis
    by (simp add: save_steps_def save_locally_def Let_def first_failure_def)
next
  case None
  let ?w1 = "print (''Local backup saved to: '' @ backup_path @ [LF])
        (w\<lparr>files := (files w)(backup_path \<mapsto> csv_text (float_str e) (cleaned df))\<rparr>)"
  have written: "save_locally e df generate_filename w = (Inr backup_path, cleaned df, ?w1)"
    using None by (rule save_locally_ok)
  have content: "files ?w1 backup_path = Some (csv_text (float_str e) (cleaned df))"
    by (simp add: print_def)
  show ?thesis
  proof (cases "open_read_error e")
    case (Some exn)
    then show ?thesis
      using written None by (simp add: save_steps_def validate_csv_def first_failure_def)
  next
    case read: None
    let ?ok = "list_all (\<lambda>line. py_count separator line = 5) (py_lines (csv_text (float_str e) (cleaned df)))"
    obtain w2 where v: "validate_csv e backup_path ?w1 = (Inr ?ok, w2)"
      using validate_csv_result [OF content read] by (metis prod.collapse)
    have w2: "files w2 = files ?w1" "containers w2 = containers w"
      using validate_csv_frame [of e backup_path ?w1] v by (simp_all add: print_def)
    show ?thesis
    proof (cases ?ok)
      case False
      then show ?thesis
        using written v None read by (simp add: save_steps_def first_failure_def)
    next
      case True
      have "files w2 backup_path = Some (csv_text (float_str e) (cleaned df))"
        using w2 content by simp
      note upload_file_result [OF this, of e generate_filename]
      then have up: "fst (upload_file e backup_path generate_filename w2) =
         (case first_failure e df w of None \<Rightarrow> Inr () | Some exn \<Rightarrow> Inl exn)"
        using None read True w2(2)
        by (auto simp: first_failure_def split: option.splits if_splits)
      show ?thesis
        using written v True up
        by (cases "upload_file e backup_path generate_filename w2")
           (auto simp: save_steps_def split: sum.splits option.splits)
    qed
  qed
qed

lemma first_failure_None: "first_failure e df w = None \<longleftrightarrow> steps_succeed e df w"
  by (auto simp: first_failure_def steps_succeed_def split: option.splits if_splits)

subsection \<open>Frames that pass the validation\<close>

lemma plain_headline_count:
  assumes "DQ \<notin> set (headline r)" "CHR '','' \<notin> set (headline r)"
    and "DQ \<notin> set (fmt (negative r))" "DQ \<notin> set (fmt (neutral r))" "DQ \<notin> set (fmt (positive r))"
     "DQ \<notin> set (fmt (compound r))" "DQ \<notin> set (label r)" "DQ \<notin> set t"
  shows "count_from separator 0 (csv_record fmt (row_cells r) @ t) = 5"
proof -
  let ?T = "csv_escape (fmt (negative r)) @
     DQ # CHR '','' # DQ # csv_escape (fmt (neutral r)) @ DQ # CHR '','' # DQ # csv_escape (fmt (positive r)) @
     DQ # CHR '','' # DQ # csv_escape (fmt (compound r)) @ DQ # CHR '','' # DQ # csv_escape (label r) @ DQ # t"
  let ?X = "csv_escape (headline r) @ DQ # CHR '','' # DQ # ?T"
  have "\<not> prefix [CHR '',''] ?X"
  proof (cases "csv_escape (headline r)")
    case Nil
    then show ?thesis by simp
  next
    case (Cons c cs)
    then have "c \<in> set (headline r)"
      using set_csv_escape [of "headline r"] by auto
    then have "c \<noteq> CHR '',''"
      using assms(2) by auto
    then show ?thesis
      using Cons by simp
  qed
  then have "\<not> prefix separator (DQ # ?X)"
    by (auto simp: separator_def prefix_def)
  then have "count_from separator 0 (DQ # ?X) = count_from separator 0 ?X"
    by simp
  also have "\<dots> = Suc (count_from separator 0 ?T)"
    using assms(1) by (rule count_field)
  also have "count_from separator 0 ?T = 4"
    using assms(3-8) by (rule count_tail)
  finally show ?thesis
    by (simp only: csv_record_row)
qed

lemma double_quotes_plain: "DQ \<notin> set h \<Longrightarrow> double_quotes h = h"
  by (induction h) (auto simp: double_quotes_def)

lemma clean_headline_chars:
  assumes "DQ \<notin> set h"
  shows "set (clean_headline h) \<subseteq> insert (CHR '' '') (set h)"
proof -
  have "set (newlines_to_spaces h) \<subseteq> insert (CHR '' '') (set h)"
    by (auto simp: newlines_to_spaces_def)
  then show ?thesis
    using set_trim [of "newlines_to_spaces h"] assms
    by (auto simp: clean_refines cleaning_rule_def double_quotes_plain)
qed

lemma plain_row_valid:
  assumes "plain_cells fmt r" "DQ \<notin> set (headline r)" "CHR '','' \<notin> set (headline r)"
  shows "py_count separator (csv_record fmt (row_cells (r\<lparr>headline := clean_headline (headline r)\<rparr>)) @ [LF]) = 5"
proof -
  let ?r = "r\<lparr>headline := clean_headline (headline r)\<rparr>"
  have "DQ \<notin> set (headline ?r)" "CHR '','' \<notin> set (headline ?r)"
    using clean_headline_chars [OF assms(2)] assms(2,3) by auto
  moreover have "DQ \<notin> set (fmt (negative ?r))" "DQ \<notin> set (fmt (neutral ?r))"
    "DQ \<notin> set (fmt (positive ?r))" "DQ \<notin> set (fmt (compound ?r))" "DQ \<notin> set (label ?r)"
    using assms(1) by (simp_all add: plain_cells_def plain_text_def)
  moreover have "DQ \<notin> set [LF]"
    by simp
  ultimately have "count_from separator 0 (csv_record fmt (row_cells ?r) @ [LF]) = 5"
    by (rule plain_headline_count)
  then show ?thesis
    by (simp add: py_count_def separator_def)
qed

lemma plain_frame_valid:
  assumes "\<forall>r \<in> set df. plain_cells fmt r \<and> DQ \<notin> set (headline r) \<and> CHR '','' \<notin> set (headline r)"
  shows "list_all (\<lambda>line. py_count separator line = 5) (py_lines (csv_text fmt (cleaned df)))"
proof -
  have one_line: "\<forall>r \<in> set (cleaned df). CR \<notin> set (csv_record fmt (row_cells r)) \<and> LF \<notin> set (csv_record fmt (row_cells r))"
    using assms cleaned_row_one_line by (auto simp: cleaned_def)
  have "\<forall>r \<in> set (cleaned df). py_count separator (csv_record fmt (row_cells r) @ [LF]) = 5"
    using assms plain_row_valid by (auto simp: cleaned_def)
  then show ?thesis
    using count_header [of fmt] by (simp add: py_lines_csv_text [OF one_line] list_all_iff)
qed

subsection \<open>What a save leaves on disk and in the store\<close>

lemma upload_file_files: "files (snd (upload_file e p f w)) = files w"
  by (auto simp: upload_file_def Let_def split: option.splits)

lemma upload_file_containers:
  assumes "fst (upload_file e p f w) = Inr ()" and "files w p = Some data"
  shows "containers (snd (upload_file e p f w)) =
     (containers w)(container_name \<mapsto>
        (case containers w container_name of None \<Rightarrow> Map.empty | Some blobs \<Rightarrow> blobs)(f \<mapsto> data))"
  using assms by (auto simp: upload_file_def Let_def split: option.splits if_splits)

lemma save_steps_frame: "fst (snd (save_steps e df f w)) = cleaned df"
  using save_locally_frame [of e df f w]
  by (auto simp: save_steps_def split: prod.splits sum.splits)

lemma save_to_blob_frame: "fst (snd (save_to_blob e df w)) = cleaned df"
  using save_steps_frame [of e df generate_filename w]
  by (auto simp: save_to_blob_def split: prod.splits sum.splits if_splits)

lemma save_steps_files:
  assumes "open_write_error e = None"
  shows "files (snd (snd (save_steps e df generate_filename w)))
       = (files w)(backup_path \<mapsto> csv_text (float_str e) (cleaned df))"
proof -
  let ?w1 = "print (''Local backup saved to: '' @ backup_path @ [LF])
        (w\<lparr>files := (files w)(backup_path \<mapsto> csv_text (float_str e) (cleaned df))\<rparr>)"
  have written: "save_locally e df generate_filename w = (Inr backup_path, cleaned df, ?w1)"
    using assms by (rule save_locally_ok)
  obtain res w2 where v: "validate_csv e backup_path ?w1 = (res, w2)"
    by (cases "validate_csv e backup_path ?w1")
  have w2: "files w2 = files ?w1"
    using validate_csv_frame [of e backup_path ?w1] v by simp
  obtain res' w3 where u: "upload_file e backup_path generate_filename w2 = (res', w3)"
    by (cases "upload_file e backup_path generate_filename w2")
  have w3: "files w3 = files w2"
    using upload_file_files [of e backup_path generate_filename w2] u by simp
  show ?thesis
    using written v u w2 w3
    by (auto simp: save_steps_def print_def split: sum.splits)
qed

lemma save_steps_files_unwritten:
  assumes "open_write_error e = Some exn"
  shows "files (snd (snd (save_steps e df generate_filename w))) = files w"
  using assms by (simp add: save_steps_def save_locally_def Let_def)

lemma save_to_blob_files:
  "files (snd (snd (save_to_blob e df w))) = files (snd (snd (save_steps e df generate_filename w)))"
  by (auto simp: save_to_blob_def print_def split: prod.splits sum.splits if_splits)

lemma save_to_blob_containers:
  "containers (snd (snd (save_to_blob e df w))) = containers (snd (snd (save_steps e df generate_filename w)))"
  by (auto simp: save_to_blob_def print_def split: prod.splits sum.splits if_splits)

lemma save_steps_containers:
  assumes "fst (save_steps e df generate_filename w) = Inr True"
  shows "containers (snd (snd (save_steps e df generate_filename w))) =
     (containers w)(container_name \<mapsto>
        (case containers w container_name of None \<Rightarrow> Map.empty | Some blobs \<Rightarrow> blobs)
          (generate_filename \<mapsto> csv_text (float_str e) (cleaned df)))"
proof -
  have ok: "open_write_error e = None"
    using assms save_steps_True [of e df w] by (simp add: steps_succeed_def)
  let ?w1 = "print (''Local backup saved to: '' @ backup_path @ [LF])
        (w\<lparr>files := (files w)(backup_path \<mapsto> csv_text (float_str e) (cleaned df))\<rparr>)"
  have written: "save_locally e df generate_filename w = (Inr backup_path, cleaned df, ?w1)"
    using ok by (rule save_locally_ok)
  obtain res w2 where v: "validate_csv e backup_path ?w1 = (res, w2)"
    by (cases "validate_csv e backup_path ?w1")
  have w2: "files w2 = files ?w1" "containers w2 = containers w"
    using validate_csv_frame [of e backup_path ?w1] v by (simp_all add: print_def)
  obtain res' w3 where u: "upload_file e backup_path generate_filename w2 = (res', w3)"
    by (cases "upload_file e backup_path generate_filename w2")
  have "res = Inr True" "res' = Inr ()"
    using assms written v u by (auto simp: save_steps_def split: sum.splits if_splits)
  then have "containers w3 = (containers w2)(container_name \<mapsto>
        (case containers w2 container_name of None \<Rightarrow> Map.empty | Some blobs \<Rightarrow> blobs)
          (generate_filename \<mapsto> csv_text (float_str e) (cleaned df)))"
    using upload_file_containers [of e backup_path generate_filename w2 "csv_text (float_str e) (cleaned df)"]
      u w2 by (simp add: print_def)
  then show ?thesis
    using written v u w2 \<open>res = Inr True\<close> \<open>res' = Inr ()\<close>
    by (simp add: save_steps_def print_def)
qed

lemma save_to_blob_True:
  assumes "steps_succeed e df w"
  shows "fst (save_to_blob e df w) = Inr True"
proof -
  have "fst (save_steps e df generate_filename w) = Inr True"
    using assms by (simp add: save_steps_True)
  then show ?thesis
    by (auto simp: save_to_blob_def split: prod.splits sum.splits if_splits)
qed

subsection \<open>Counting the quotes of a cleaned headline\<close>

lemma count_double_quotes: "count_list (double_quotes s) DQ = 2 * count_list s DQ"
  by (induction s) (auto simp: double_quotes_def)

lemma count_newlines_to_spaces: "count_list (newlines_to_spaces s) DQ = count_list s DQ"
  by (induction s) (auto simp: newlines_to_spaces_def)

lemma count_trim_left: "count_list (trim_left s) DQ = count_list s DQ"
  by (induction s) (auto simp: py_isspace_def)

lemma count_trim: "count_list (trim s) DQ = count_list s DQ"
  by (simp add: trim_def count_trim_left)

lemma count_clean_headline: "count_list (clean_headline h) DQ = 2 * count_list h DQ"
  by (simp add: clean_refines cleaning_rule_def count_trim count_newlines_to_spaces count_double_quotes)

subsection \<open>The fetch loop\<close>

lemma set_add_distinct: "distinct s \<Longrightarrow> distinct (set_add x s)"
  by (simp add: set_add_def)

lemma set_set_add: "set (set_add x s) = insert x (set s)"
  by (auto simp: set_add_def)

lemma count_list_distinct: "distinct xs \<Longrightarrow> count_list xs t = (if t \<in> set xs then 1 else 0)"
  by (induction xs) auto

lemma fetch_loop_set:
  "distinct acc \<Longrightarrow>
   distinct (fst (fetch_loop titles acc w)) \<and> set (fst (fetch_loop titles acc w)) = set acc \<union> set titles"
proof (induction titles arbitrary: acc w)
  case Nil
  then show ?case by simp
next
  case (Cons t titles)
  have "distinct (set_add t acc)"
    using Cons.prems by (rule set_add_distinct)
  then show ?case
    using Cons.IH [of "set_add t acc"] by (simp add: Let_def set_set_add)
qed

lemma fetch_steps_raised:
  assumes "reddit_new e subreddit limit = (titles, Some exn)"
  shows "fetch_steps e subreddit limit w = (Inl exn, snd (fetch_loop titles [] w))"
  using assms by (simp add: fetch_steps_def split: prod.splits)

lemma fetch_steps_returned:
  assumes "reddit_new e subreddit limit = (titles, None)"
  shows "fetch_steps e subreddit limit w
       = (Inr (set_order e (fst (fetch_loop titles [] w))), snd (fetch_loop titles [] w))"
  using assms by (simp add: fetch_steps_def split: prod.splits)

subsection \<open>The analysis and the main block\<close>


lemma analyze_loop_map:
  "analyze_loop sia hs results = results @ map (headline_record sia) hs"
  by (induction hs arbitrary: results) (simp_all add: Let_def headline_record_def)

lemma first_seen_append: "first_seen seen (ks @ ls) = first_seen (first_seen seen ks) ls"
  by (induction ks arbitrary: seen) simp_all

lemma first_seen_known: "set ks \<subseteq> set seen \<Longrightarrow> first_seen seen ks = seen"
  by (induction ks) simp_all

lemma keys_headline_record: "map fst (headline_record sia h) = required_columns"
  by (simp add: headline_record_def required_columns_def)

lemma keys_headline_records:
  "set (concat (map (map fst) (map (headline_record sia) hs))) \<subseteq> set required_columns"
  by (induction hs) (simp_all add: keys_headline_record)

lemma first_seen_required: "first_seen [] required_columns = required_columns"
  by (simp add: required_columns_def)

lemma columns_headline_records:
  assumes "hs \<noteq> []"
  shows "first_seen [] (concat (map (map fst) (map (headline_record sia) hs))) = required_columns"
proof (cases hs)
  case Nil
  then show ?thesis using assms by simp
next
  case (Cons h hs')
  have "first_seen [] (concat (map (map fst) (map (headline_record sia) (h # hs'))))
      = first_seen (first_seen [] required_columns) (concat (map (map fst) (map (headline_record sia) hs')))"
    by (simp add: keys_headline_record first_seen_append)
  also have "\<dots> = required_columns"
    using keys_headline_records [of sia hs'] by (simp add: first_seen_required first_seen_known)
  finally show ?thesis
    using Cons by simp
qed

lemma headline_record_by_name:
  "map (\<lambda>k. (k, dict_get (headline_record sia h) k)) required_columns = headline_record sia h"
  by (simp add: required_columns_def headline_record_def dict_get_def)

lemma DataFrame_headline_records:
  assumes "hs \<noteq> []"
  shows "DataFrame (map (headline_record sia) hs)
       = \<lparr>columns = required_columns, records = map (headline_record sia) hs\<rparr>"
proof -
  have "DataFrame (map (headline_record sia) hs)
      = \<lparr>columns = required_columns,
         records = map (\<lambda>d. map (\<lambda>k. (k, dict_get d k)) required_columns)
                     (map (headline_record sia) hs)\<rparr>"
    unfolding DataFrame_def Let_def columns_headline_records [OF assms] by (rule refl)
  then show ?thesis
    by (simp add: headline_record_by_name comp_def)
qed

lemma analyze_sentiment_records:
  "records (analyze_sentiment sia hs) = map (headline_record sia) hs"
proof (cases "hs = []")
  case True
  then show ?thesis
    by (simp add: analyze_sentiment_def DataFrame_def)
next
  case False
  then show ?thesis
    by (simp add: analyze_sentiment_def analyze_loop_map DataFrame_headline_records)
qed

lemma analyze_sentiment_columns:
  "columns (analyze_sentiment sia hs) = (if hs = [] then [] else required_columns)"
proof (cases "hs = []")
  case True
  then show ?thesis
    by (simp add: analyze_sentiment_def DataFrame_def)
next
  case False
  then show ?thesis
    by (simp add: analyze_sentiment_def analyze_loop_map DataFrame_headline_records)
qed

lemma prepare_frame_empty: "prepare_frame e [] = Inl (Exc ''KeyError'' ''headline'')"
  by (simp add: prepare_frame_def select_columns_def analyze_sentiment_columns required_columns_def)

lemma prepare_frame_dropna:
  assumes "hs \<noteq> []"
  shows "prepare_frame e hs =
     Inr \<lparr>columns = required_columns,
          records = filter (\<lambda>d. list_all (\<lambda>v. \<not> cell_isna v) (map snd d))
                      (map (headline_record (polarity_scores e)) hs)\<rparr>"
  using assms
  by (simp add: prepare_frame_def select_columns_def analyze_sentiment_columns
      analyze_sentiment_records dropna_def headline_record_by_name comp_def)

lemma prepare_frame_records:
  assumes "prepare_frame e hs = Inr df"
  shows "columns df = required_columns
    \<and> records df = filter (\<lambda>d. list_all (\<lambda>v. \<not> cell_isna v) (map snd d))
                      (map (headline_record (polarity_scores e)) hs)"
proof (cases "hs = []")
  case True
  then show ?thesis
    using assms by (simp add: prepare_frame_empty)
next
  case False
  then show ?thesis
    using assms prepare_frame_dropna [of hs e] by auto
qed

lemma row_of_headline_record:
  "row_cells \<lparr>headline = cell_str fmt (dict_get (headline_record sia h) ''headline''),
              negative = cell_float (dict_get (headline_record sia h) ''negative''),
              neutral = cell_float (dict_get (headline_record sia h) ''neutral''),
              positive = cell_float (dict_get (headline_record sia h) ''positive''),
              compound = cell_float (dict_get (headline_record sia h) ''compound''),
              label = cell_str fmt (dict_get (headline_record sia h) ''label'')\<rparr>
     = map snd (headline_record sia h)"
  by (simp add: row_cells_def headline_record_def dict_get_def)

lemma frame_rows_headline_records:
  assumes "records df = filter P (map (headline_record sia) hs)"
  shows "map row_cells (frame_rows fmt df) = map (map snd) (records df)"
proof -
  have "\<forall>d \<in> set (records df). \<exists>h. d = headline_record sia h"
    using assms by auto
  then show ?thesis
    using row_of_headline_record [of fmt sia]
    by (auto simp: frame_rows_def)
qed

lemma frame_rows_no_na:
  assumes "records df = filter (\<lambda>d. list_all (\<lambda>v. \<not> cell_isna v) (map snd d))
                          (map (headline_record sia) hs)"
  shows "\<forall>r \<in> set (frame_rows fmt df). \<not> row_has_na r"
  using assms
  by (auto simp: frame_rows_def row_has_na_def headline_record_def dict_get_def)

lemma main_backup:
  assumes "fst (fetch_headlines e ''politics'' 500 (print (''Fetching Reddit headlines...'' @ [LF]) w))
             = Inr headlines"
    and "headlines \<noteq> []" and "open_write_error e = None"
    and "prepare_frame e headlines = Inr df"
  shows "files (snd (main e w)) backup_path
       = Some (csv_text (float_str e) (cleaned (frame_rows (float_str e) df)))"
proof -
  let ?rows = "frame_rows (float_str e) df"
  obtain w1 where f: "fetch_headlines e ''politics'' 500 (print (''Fetching Reddit headlines...'' @ [LF]) w)
      = (Inr headlines, w1)"
    using assms(1) by (metis prod.collapse)
  let ?w5 = "print (LF # ''Saving data...'' @ [LF])
       (print (frame_str e (head df) @ [LF])
         (print (LF # ''Sample results:'' @ [LF])
           (print (LF # ''Analyzing sentiment...'' @ [LF]) w1)))"
  obtain res df' w6 where s: "save_to_blob e ?rows ?w5 = (res, df', w6)"
    by (cases "save_to_blob e ?rows ?w5")
  have "files w6 = (files ?w5)(backup_path \<mapsto> csv_text (float_str e) (cleaned ?rows))"
    using save_to_blob_files [of e ?rows ?w5] save_steps_files [OF assms(3), of ?rows ?w5] s by simp
  then have "files w6 backup_path = Some (csv_text (float_str e) (cleaned ?rows))"
    by simp
  then show ?thesis
    using f s assms(2,4)
    by (cases res) (simp_all add: main_def Let_def print_def)
qed

section \<open>Properties\<close>

text \<open>
  C1. For every real compound score \<open>c\<close> the label is \<open>Positive\<close> exactly when \<open>c \<ge> 0.2\<close>,
  \<open>Negative\<close> exactly when \<open>c \<le> -0.2\<close> and \<open>Neutral\<close> exactly in between; the two boundary
  values \<open>0.2\<close> and \<open>-0.2\<close> are labelled \<open>Positive\<close> and \<open>Negative\<close>.
\<close>

theorem categorize_sentiment_thresholds:
  "(categorize_sentiment (Float c) = ''Positive'' \<longleftrightarrow> c \<ge> 0.2)
   \<and> (categorize_sentiment (Float c) = ''Negative'' \<longleftrightarrow> c \<le> - 0.2)
   \<and> (categorize_sentiment (Float c) = ''Neutral'' \<longleftrightarrow> - 0.2 < c \<and> c < 0.2)
   \<and> categorize_sentiment (Float 0.2) = ''Positive''
   \<and> categorize_sentiment (Float (- 0.2)) = ''Negative''"
  by (auto simp: categorize_sentiment_def)

text \<open>
  C2. If the backup file that \<open>_save_locally\<close> has written contains a line whose count of
  the separator \<open>","\<close> is not 5, then \<open>save_to_blob\<close> returns \<open>False\<close>, sends no request to the
  storage service (so no upload is attempted and no container changes) and leaves the
  files on disk as the write left them: the backup file is still there with its content.
  This holds also when the validation cannot open the file, as long as what the opening
  raises is an instance of \<open>Exception\<close>, as the errors of the operating system are.
\<close>

theorem save_aborts_on_invalid_file:
  assumes "fst (save_locally e df generate_filename w) = Inr path"
    and "files (snd (snd (save_locally e df generate_filename w))) path = Some content"
    and "\<exists>line \<in> set (py_lines content). py_count separator line \<noteq> 5"
    and "\<forall>exn. open_read_error e = Some exn \<longrightarrow> is_Exception exn"
  shows "fst (save_to_blob e df w) = Inr False
    \<and> requests (snd (snd (save_to_blob e df w))) = requests w
    \<and> containers (snd (snd (save_to_blob e df w))) = containers w
    \<and> files (snd (snd (save_to_blob e df w))) = files (snd (snd (save_locally e df generate_filename w)))
    \<and> files (snd (snd (save_to_blob e df w))) path = Some content"
proof -
  let ?w1 = "snd (snd (save_locally e df generate_filename w))"
  have written: "save_locally e df generate_filename w = (Inr path, cleaned df, ?w1)"
    using assms(1) save_locally_frame [of e df generate_filename w]
    by (metis prod.collapse)
  have "\<not> list_all (\<lambda>line. py_count separator line = 5) (py_lines content)"
    using assms(3) by (simp add: list_all_iff)
  then have "fst (validate_csv e path ?w1) \<noteq> Inr True"
    using assms(2) by (rule validate_csv_bad [rotated])
  then obtain exn where
    "save_steps e df generate_filename w = (Inl exn, cleaned df, snd (validate_csv e path ?w1))"
    and "is_Exception exn"
    using save_steps_invalid [OF written] assms(4) by blast
  then have "save_to_blob e df w =
      (Inr False, cleaned df,
       print (LF # ''Error during save operation: '' @ exc_str exn @ [LF])
         (snd (validate_csv e path ?w1)))"
    by (rule save_to_blob_raised)
  then show ?thesis
    using assms(2) validate_csv_frame [of e path ?w1] save_locally_frame [of e df generate_filename w]
    by (simp add: print_frame)
qed

theorem save_aborts_on_invalid_file_witness:
  "fst (save_locally demo_env [demo_row separator_headline] generate_filename demo_world) = Inr backup_path
   \<and> open_read_error demo_env = None
   \<and> (\<exists>line \<in> set (py_lines (csv_text demo_float_str (cleaned [demo_row separator_headline]))).
         py_count separator line \<noteq> 5)
   \<and> fst (save_to_blob demo_env [demo_row separator_headline] demo_world) = Inr False
   \<and> requests (snd (snd (save_to_blob demo_env [demo_row separator_headline] demo_world))) = []
   \<and> files (snd (snd (save_to_blob demo_env [demo_row separator_headline] demo_world))) backup_path
       = Some (csv_text demo_float_str (cleaned [demo_row separator_headline]))"
proof -
  let ?df = "[demo_row separator_headline]"
  let ?content = "csv_text demo_float_str (cleaned ?df)"
  have o: "open_write_error demo_env = None"
    by (simp add: demo_env_def)
  have f: "float_str demo_env = demo_float_str"
    by (simp add: demo_env_def)
  have a: "fst (save_locally demo_env ?df generate_filename demo_world) = Inr backup_path"
    by (simp add: save_locally_ok [OF o])
  have b: "files (snd (snd (save_locally demo_env ?df generate_filename demo_world))) backup_path
      = Some ?content"
    using f by (simp add: save_locally_ok [OF o] print_def)
  have p: "plain_cells demo_float_str (demo_row separator_headline)"
    by (simp add: plain_cells_def plain_text_def demo_row_def demo_float_str_def)
  have "py_lines ?content =
     [csv_record demo_float_str header_cells @ [LF],
      csv_record demo_float_str
        (row_cells ((demo_row separator_headline)\<lparr>headline := clean_headline (headline (demo_row separator_headline))\<rparr>)) @ [LF]]"
    using cleaned_row_one_line [OF p] by (simp add: py_lines_csv_text cleaned_def)
  moreover have "py_count separator (csv_record demo_float_str
        (row_cells ((demo_row separator_headline)\<lparr>headline := clean_headline (headline (demo_row separator_headline))\<rparr>)) @ [LF]) = 6"
    using separator_count [of demo_float_str 
        "(demo_row separator_headline)\<lparr>headline := clean_headline (headline (demo_row separator_headline))\<rparr>" "[LF]"]
    by (simp add: demo_row_def demo_float_str_def separator_headline_cleaned py_count_def separator_def)
  ultimately have c: "\<exists>line \<in> set (py_lines ?content). py_count separator line \<noteq> 5"
    by simp
  have r: "requests demo_world = []"
    by (simp add: demo_world_def)
  have n: "open_read_error demo_env = None"
    by (simp add: demo_env_def)
  then have d: "\<forall>exn. open_read_error demo_env = Some exn \<longrightarrow> is_Exception exn"
    by simp
  show ?thesis
    using save_aborts_on_invalid_file [OF a b c d] a b c r n by simp
qed

text \<open>
  C3. \<open>_clean_headline\<close> is the cleaning rule of the specification: double every double
  quote, then replace every newline and carriage return by a space, then trim. The headline
  \<open>He said "hi"\<close>, newline, \<open>there\<close> is cleaned to \<open>He said ""hi"" there\<close>; for a row with that
  headline whose other cells are plain texts, the line written to the backup file has
  exactly 5 separators and the file passes the validation.
\<close>

theorem clean_headline_quoted_example:
  assumes "headline r = quoted_headline" and "plain_cells (float_str e) r"
    and "open_write_error e = None" and "open_read_error e = None"
  shows "clean_headline t = cleaning_rule t
    \<and> clean_headline (headline r) = ''He said '' @ [DQ, DQ] @ ''hi'' @ [DQ, DQ] @ '' there''
    \<and> fst (save_locally e [r] generate_filename w) = Inr backup_path
    \<and> files (snd (snd (save_locally e [r] generate_filename w))) backup_path
        = Some (writerow (float_str e) header_cells
                @ writerow (float_str e) (row_cells (r\<lparr>headline := clean_headline (headline r)\<rparr>)))
    \<and> py_count separator (writerow (float_str e) (row_cells (r\<lparr>headline := clean_headline (headline r)\<rparr>))) = 5
    \<and> fst (validate_csv e backup_path (snd (snd (save_locally e [r] generate_filename w)))) = Inr True"
proof -
  let ?fmt = "float_str e"
  let ?r = "r\<lparr>headline := clean_headline (headline r)\<rparr>"
  let ?w = "snd (snd (save_locally e [r] generate_filename w))"
  have hl: "headline ?r = ''He said '' @ [DQ, DQ] @ ''hi'' @ [DQ, DQ] @ '' there''"
    using assms(1) by (simp add: quoted_headline_cleaned)
  have plain: "DQ \<notin> set (?fmt (negative ?r))" "DQ \<notin> set (?fmt (neutral ?r))"
    "DQ \<notin> set (?fmt (positive ?r))" "DQ \<notin> set (?fmt (compound ?r))" "DQ \<notin> set (label ?r)"
    using assms(2) by (simp_all add: plain_cells_def plain_text_def)
  have written: "count_from separator 0 (csv_record ?fmt (row_cells ?r) @ [CR, LF]) = 5"
    using plain _ hl by (rule example_count) simp
  have read: "count_from separator 0 (csv_record ?fmt (row_cells ?r) @ [LF]) = 5"
    using plain _ hl by (rule example_count) simp
  have content: "files ?w backup_path = Some (csv_text ?fmt [?r])"
    by (simp add: save_locally_ok [OF assms(3)] cleaned_def print_def)
  have "py_lines (csv_text ?fmt [?r])
      = [csv_record ?fmt header_cells @ [LF], csv_record ?fmt (row_cells ?r) @ [LF]]"
    using cleaned_row_one_line [OF assms(2)] by (simp add: py_lines_csv_text)
  then have "list_all (\<lambda>line. py_count separator line = 5) (py_lines (csv_text ?fmt [?r]))"
    using read count_header [of ?fmt] by (simp add: py_count_def separator_def)
  then have "validate_csv e backup_path ?w = (Inr True, ?w)"
    using content assms(4) by (simp add: validate_csv_def validate_lines_all)
  moreover have "py_count separator (writerow ?fmt (row_cells ?r)) = 5"
    using written by (simp add: py_count_def separator_def writerow_def)
  moreover have "fst (save_locally e [r] generate_filename w) = Inr backup_path"
    by (simp add: save_locally_ok [OF assms(3)])
  ultimately show ?thesis
    using content hl by (simp add: clean_refines csv_text_def)
qed

theorem clean_headline_quoted_example_witness:
  "headline (demo_row quoted_headline) = quoted_headline
   \<and> plain_cells (float_str demo_env) (demo_row quoted_headline)
   \<and> open_write_error demo_env = None \<and> open_read_error demo_env = None
   \<and> clean_headline (headline (demo_row quoted_headline)) = ''He said '' @ [DQ, DQ] @ ''hi'' @ [DQ, DQ] @ '' there''
   \<and> py_count separator (writerow (float_str demo_env)
        (row_cells ((demo_row quoted_headline)\<lparr>headline := clean_headline (headline (demo_row quoted_headline))\<rparr>))) = 5
   \<and> fst (validate_csv demo_env backup_path
        (snd (snd (save_locally demo_env [demo_row quoted_headline] generate_filename demo_world)))) = Inr True"
proof -
  have h: "headline (demo_row quoted_headline) = quoted_headline"
    by (simp add: demo_row_def)
  have p: "plain_cells (float_str demo_env) (demo_row quoted_headline)"
    by (simp add: plain_cells_def plain_text_def demo_row_def demo_env_def demo_float_str_def)
  have o: "open_write_error demo_env = None" "open_read_error demo_env = None"
    by (simp_all add: demo_env_def)
  show ?thesis
    using clean_headline_quoted_example [OF h p o, of quoted_headline demo_world] h p o by blast
qed

text \<open>
  C4. The validation falsely rejects a valid row. The headline \<open>a","b\<close> is cleaned to a text
  that contains the separator \<open>","\<close>. For a row with that headline whose other cells are
  plain texts, the line the writer produces is a well-formed quoted row: the reader gets
  its six fields back, the first being the cleaned headline. Yet the line has 6 separators,
  more than 5, so \<open>_validate_csv\<close> answers \<open>False\<close> and \<open>save_to_blob\<close> fails.
\<close>

theorem validation_rejects_well_formed_row:
  assumes "headline r = separator_headline" and "plain_cells (float_str e) r"
    and "open_write_error e = None" and "open_read_error e = None"
  shows "sublist separator (clean_headline (headline r))
    \<and> read_row (writerow (float_str e) (row_cells (r\<lparr>headline := clean_headline (headline r)\<rparr>)))
        = Some [clean_headline (headline r), float_str e (negative r), float_str e (neutral r),
                float_str e (positive r), float_str e (compound r), label r]
    \<and> py_count separator (writerow (float_str e) (row_cells (r\<lparr>headline := clean_headline (headline r)\<rparr>))) = 6
    \<and> fst (validate_csv e backup_path (snd (snd (save_locally e [r] generate_filename w)))) = Inr False
    \<and> fst (save_to_blob e [r] w) = Inr False"
proof -
  let ?fmt = "float_str e"
  let ?r = "r\<lparr>headline := clean_headline (headline r)\<rparr>"
  let ?w = "snd (snd (save_locally e [r] generate_filename w))"
  have hl: "headline ?r = ''a'' @ [DQ] @ separator @ [DQ] @ ''b''"
    using assms(1) by (simp add: separator_headline_cleaned)
  have "clean_headline (headline r) = (''a'' @ [DQ]) @ separator @ ([DQ] @ ''b'')"
    using hl by simp
  then have sub: "sublist separator (clean_headline (headline r))"
    by (simp only: sublist_appendI)
  have plain: "DQ \<notin> set (?fmt (negative ?r))" "DQ \<notin> set (?fmt (neutral ?r))"
    "DQ \<notin> set (?fmt (positive ?r))" "DQ \<notin> set (?fmt (compound ?r))" "DQ \<notin> set (label ?r)"
    using assms(2) by (simp_all add: plain_cells_def plain_text_def)
  have written: "count_from separator 0 (csv_record ?fmt (row_cells ?r) @ [CR, LF]) = 6"
    using plain _ hl by (rule separator_count) simp
  have as_read: "count_from separator 0 (csv_record ?fmt (row_cells ?r) @ [LF]) = 6"
    using plain _ hl by (rule separator_count) simp
  have fields: "read_row (writerow ?fmt (row_cells ?r))
      = Some [clean_headline (headline r), ?fmt (negative r), ?fmt (neutral r),
              ?fmt (positive r), ?fmt (compound r), label r]"
    by (simp add: read_row_writerow row_cells_def)
  have content: "files ?w backup_path = Some (csv_text ?fmt [?r])"
    by (simp add: save_locally_ok [OF assms(3)] cleaned_def print_def)
  have "py_lines (csv_text ?fmt [?r])
      = [csv_record ?fmt header_cells @ [LF], csv_record ?fmt (row_cells ?r) @ [LF]]"
    using cleaned_row_one_line [OF assms(2)] by (simp add: py_lines_csv_text)
  then have bad: "\<not> list_all (\<lambda>line. py_count separator line = 5) (py_lines (csv_text ?fmt [?r]))"
    using as_read by (simp add: py_count_def separator_def)
  then have rejected: "fst (validate_csv e backup_path ?w) = Inr False"
    using validate_csv_result [OF content assms(4)] by simp
  have "first_failure e [r] w = Some (Exc ''ValueError'' ''CSV validation failed - incorrect column count'')"
    using assms(3,4) bad by (simp add: first_failure_def cleaned_def)
  then have "fst (save_steps e [r] generate_filename w)
      = Inl (Exc ''ValueError'' ''CSV validation failed - incorrect column count'')"
    by (simp add: save_steps_result)
  then obtain df' w' where
    "save_steps e [r] generate_filename w
      = (Inl (Exc ''ValueError'' ''CSV validation failed - incorrect column count''), df', w')"
    by (cases "save_steps e [r] generate_filename w") auto
  then have "fst (save_to_blob e [r] w) = Inr False"
    using save_to_blob_raised [OF _ is_Exception_ValueError] by fastforce
  moreover have "py_count separator (writerow ?fmt (row_cells ?r)) = 6"
    using written by (simp add: py_count_def separator_def writerow_def)
  ultimately show ?thesis
    using sub fields rejected by simp
qed

theorem validation_rejects_well_formed_row_witness:
  "headline (demo_row separator_headline) = separator_headline
   \<and> plain_cells (float_str demo_env) (demo_row separator_headline)
   \<and> open_write_error demo_env = None \<and> open_read_error demo_env = None
   \<and> sublist separator (clean_headline (headline (demo_row separator_headline)))
   \<and> read_row (writerow (float_str demo_env)
        (row_cells ((demo_row separator_headline)\<lparr>headline := clean_headline (headline (demo_row separator_headline))\<rparr>)))
       = Some [''a'' @ [DQ, DQ, CHR '','', DQ, DQ] @ ''b'', ''0.0'', ''1.0'', ''0.0'', ''0.0'', ''Neutral'']
   \<and> py_count separator (writerow (float_str demo_env)
        (row_cells ((demo_row separator_headline)\<lparr>headline := clean_headline (headline (demo_row separator_headline))\<rparr>))) = 6
   \<and> fst (save_to_blob demo_env [demo_row separator_headline] demo_world) = Inr False"
proof -
  have h: "headline (demo_row separator_headline) = separator_headline"
    by (simp add: demo_row_def)
  have p: "plain_cells (float_str demo_env) (demo_row separator_headline)"
    by (simp add: plain_cells_def plain_text_def demo_row_def demo_env_def demo_float_str_def)
  have o: "open_write_error demo_env = None" "open_read_error demo_env = None"
    by (simp_all add: demo_env_def)
  have v: "[clean_headline (headline (demo_row separator_headline)),
            float_str demo_env (negative (demo_row separator_headline)),
            float_str demo_env (neutral (demo_row separator_headline)),
            float_str demo_env (positive (demo_row separator_headline)),
            float_str demo_env (compound (demo_row separator_headline)),
            label (demo_row separator_headline)]
      = [''a'' @ [DQ, DQ, CHR '','', DQ, DQ] @ ''b'', ''0.0'', ''1.0'', ''0.0'', ''0.0'', ''Neutral'']"
    by (simp add: h separator_headline_cleaned separator_def demo_row_def demo_env_def demo_float_str_def)
  show ?thesis
    using validation_rejects_well_formed_row [OF h p o, of demo_world] h p o v by simp
qed

text \<open>
  C5. Every exception raised in the save sequence (the write, the validation, the
  connection, the existence check, the creation of a missing container, the opening of
  the file, the upload) that is an instance of \<open>Exception\<close> is caught by \<open>save_to_blob\<close>: the
  result is \<open>False\<close> and the last text printed is the diagnostic with the text of that
  exception. The result is \<open>True\<close> exactly when all steps succeed, that is when no step
  raises. An exception that is not an instance of \<open>Exception\<close>, such as \<open>KeyboardInterrupt\<close> or
  \<open>SystemExit\<close>, is not caught: it leaves \<open>save_to_blob\<close>, which then returns nothing and
  prints no diagnostic.
\<close>

theorem save_to_blob_catches_exceptions:
  "(fst (save_to_blob e df w) = Inr True \<longleftrightarrow> steps_succeed e df w)
   \<and> (steps_succeed e df w \<longleftrightarrow> first_failure e df w = None)
   \<and> (\<forall>exn. first_failure e df w = Some exn \<longrightarrow>
         fst (save_steps e df generate_filename w) = Inl exn
         \<and> (is_Exception exn \<longrightarrow>
              fst (save_to_blob e df w) = Inr False
              \<and> last (stdout (snd (snd (save_to_blob e df w))))
                  = LF # ''Error during save operation: '' @ exc_str exn @ [LF])
         \<and> (\<not> is_Exception exn \<longrightarrow>
              fst (save_to_blob e df w) = Inl exn
              \<and> stdout (snd (snd (save_to_blob e df w)))
                  = stdout (snd (snd (save_steps e df generate_filename w)))))"
proof (cases "first_failure e df w")
  case None
  then have "steps_succeed e df w"
    by (simp add: first_failure_None)
  then show ?thesis
    using None save_to_blob_True [of e df w] by simp
next
  case (Some exn)
  then have no: "\<not> steps_succeed e df w"
    using first_failure_None [of e df w] by simp
  have "fst (save_steps e df generate_filename w) = Inl exn"
    using Some by (simp add: save_steps_result)
  then obtain df' w' where body: "save_steps e df generate_filename w = (Inl exn, df', w')"
    by (cases "save_steps e df generate_filename w") auto
  show ?thesis
  proof (cases "is_Exception exn")
    case True
    then have "save_to_blob e df w =
        (Inr False, df', print (LF # ''Error during save operation: '' @ exc_str exn @ [LF]) w')"
      using body by (simp add: save_to_blob_raised)
    then show ?thesis
      using Some no body True by (simp add: print_def)
  next
    case False
    then have "save_to_blob e df w = (Inl exn, df', w')"
      using body by (simp add: save_to_blob_escaped)
    then show ?thesis
      using Some no body False by simp
  qed
qed

theorem save_to_blob_catches_exceptions_witness:
  "steps_succeed demo_env [demo_row ''Good news today''] demo_world
   \<and> fst (save_to_blob demo_env [demo_row ''Good news today''] demo_world) = Inr True
   \<and> first_failure failing_upload_env [demo_row ''Good news today''] demo_world
       = Some (Exc ''HttpResponseError'' ''timed out'')
   \<and> is_Exception (Exc ''HttpResponseError'' ''timed out'')
   \<and> fst (save_to_blob failing_upload_env [demo_row ''Good news today''] demo_world) = Inr False
   \<and> last (stdout (snd (snd (save_to_blob failing_upload_env [demo_row ''Good news today''] demo_world))))
       = LF # ''Error during save operation: timed out'' @ [LF]
   \<and> first_failure interrupted_upload_env [demo_row ''Good news today''] demo_world
       = Some (Exc ''KeyboardInterrupt'' [])
   \<and> \<not> is_Exception (Exc ''KeyboardInterrupt'' [])
   \<and> stdout (snd (snd (save_to_blob interrupted_upload_env [demo_row ''Good news today''] demo_world)))
       = stdout (snd (snd (save_steps interrupted_upload_env [demo_row ''Good news today'']
                             generate_filename demo_world)))"
proof -
  let ?df = "[demo_row ''Good news today'']"
  have "\<forall>r \<in> set ?df. plain_cells demo_float_str r \<and> DQ \<notin> set (headline r) \<and> CHR '','' \<notin> set (headline r)"
    by (simp add: plain_cells_def plain_text_def demo_row_def demo_float_str_def)
  then have valid: "list_all (\<lambda>line. py_count separator line = 5) (py_lines (csv_text demo_float_str (cleaned ?df)))"
    by (rule plain_frame_valid)
  have good: "steps_succeed demo_env ?df demo_world"
    using valid by (simp add: steps_succeed_def demo_env_def)
  have bad: "first_failure failing_upload_env ?df demo_world = Some (Exc ''HttpResponseError'' ''timed out'')"
    using valid by (simp add: first_failure_def failing_upload_env_def demo_env_def)
  have stopped: "first_failure interrupted_upload_env ?df demo_world = Some (Exc ''KeyboardInterrupt'' [])"
    using valid by (simp add: first_failure_def interrupted_upload_env_def demo_env_def)
  have classes: "is_Exception (Exc ''HttpResponseError'' ''timed out'')"
    "\<not> is_Exception (Exc ''KeyboardInterrupt'' [])"
    by (simp_all add: is_Exception_def)
  show ?thesis
    using save_to_blob_catches_exceptions [of demo_env ?df demo_world]
      save_to_blob_catches_exceptions [of failing_upload_env ?df demo_world]
      save_to_blob_catches_exceptions [of interrupted_upload_env ?df demo_world]
      good bad stopped classes
    by simp
qed

text \<open>
  Not every exception is caught: when the upload is interrupted from the keyboard, the
  \<open>KeyboardInterrupt\<close> leaves \<open>save_to_blob\<close>.
\<close>

theorem save_to_blob_interrupt_escapes:
  "fst (save_to_blob interrupted_upload_env [demo_row ''Good news today''] demo_world)
     = Inl (Exc ''KeyboardInterrupt'' [])"
proof -
  let ?df = "[demo_row ''Good news today'']"
  have "\<forall>r \<in> set ?df. plain_cells demo_float_str r \<and> DQ \<notin> set (headline r) \<and> CHR '','' \<notin> set (headline r)"
    by (simp add: plain_cells_def plain_text_def demo_row_def demo_float_str_def)
  then have "list_all (\<lambda>line. py_count separator line = 5) (py_lines (csv_text demo_float_str (cleaned ?df)))"
    by (rule plain_frame_valid)
  then have "first_failure interrupted_upload_env ?df demo_world = Some (Exc ''KeyboardInterrupt'' [])"
    by (simp add: first_failure_def interrupted_upload_env_def demo_env_def)
  then have "fst (save_steps interrupted_upload_env ?df generate_filename demo_world)
      = Inl (Exc ''KeyboardInterrupt'' [])"
    by (simp add: save_steps_result)
  then obtain df' w' where
    "save_steps interrupted_upload_env ?df generate_filename demo_world
      = (Inl (Exc ''KeyboardInterrupt'' []), df', w')"
    by (cases "save_steps interrupted_upload_env ?df generate_filename demo_world") auto
  moreover have "\<not> is_Exception (Exc ''KeyboardInterrupt'' [])"
    by (simp add: is_Exception_def)
  ultimately have "save_to_blob interrupted_upload_env ?df demo_world
      = (Inl (Exc ''KeyboardInterrupt'' []), df', w')"
    by (rule save_to_blob_escaped)
  then show ?thesis
    by simp
qed

text \<open>
  C6. When the listing raises an error during the fetch, an instance of \<open>Exception\<close> as the
  transport and authentication errors are, \<open>fetch_headlines\<close> returns the empty
  list instead of raising, after printing the error; the headlines collected before the
  error are lost. The value returned is the one returned for a listing that is empty and
  raises nothing, so the caller cannot tell the two apart.
\<close>

theorem fetch_headlines_fails_soft:
  assumes "reddit_new e subreddit limit = (titles, Some exn)" and "is_Exception exn"
  shows "fst (fetch_headlines e subreddit limit w) = Inr []
    \<and> stdout (snd (fetch_headlines e subreddit limit w))
        = stdout (snd (fetch_loop titles [] w)) @ [LF # ''Error fetching headlines: '' @ exc_str exn @ [LF]]
    \<and> (\<forall>e'. reddit_new e' subreddit limit = ([], None) \<and> set_order e' [] = []
          \<longrightarrow> fst (fetch_headlines e' subreddit limit w) = fst (fetch_headlines e subreddit limit w))"
proof -
  have "fetch_headlines e subreddit limit w =
      (Inr [], print (LF # ''Error fetching headlines: '' @ exc_str exn @ [LF]) (snd (fetch_loop titles [] w)))"
    using fetch_steps_raised [OF assms(1)] assms(2) by (simp add: fetch_headlines_def)
  moreover have "fst (fetch_headlines e' subreddit limit w) = Inr []"
    if "reddit_new e' subreddit limit = ([], None)" "set_order e' [] = []" for e'
    using fetch_steps_returned [OF that(1)] that(2) by (simp add: fetch_headlines_def)
  ultimately show ?thesis
    by (simp add: print_def)
qed

theorem fetch_headlines_fails_soft_witness:
  "reddit_new failing_listing_env ''politics'' 500
     = ([''Good news today''], Some (Exc ''ResponseException'' ''received 401 HTTP response''))
   \<and> is_Exception (Exc ''ResponseException'' ''received 401 HTTP response'')
   \<and> fst (fetch_headlines failing_listing_env ''politics'' 500 demo_world) = Inr []
   \<and> stdout (snd (fetch_headlines failing_listing_env ''politics'' 500 demo_world))
       = [CR # ''Headlines collected: 1'',
          LF # ''Error fetching headlines: received 401 HTTP response'' @ [LF]]
   \<and> reddit_new empty_listing_env ''politics'' 500 = ([], None) \<and> set_order empty_listing_env [] = []
   \<and> fst (fetch_headlines empty_listing_env ''politics'' 500 demo_world)
       = fst (fetch_headlines failing_listing_env ''politics'' 500 demo_world)"
proof -
  have a: "reddit_new failing_listing_env ''politics'' 500
     = ([''Good news today''], Some (Exc ''ResponseException'' ''received 401 HTTP response''))"
    by (simp add: failing_listing_env_def)
  have b: "reddit_new empty_listing_env ''politics'' 500 = ([], None) \<and> set_order empty_listing_env [] = []"
    by (simp add: empty_listing_env_def demo_env_def)
  have c: "stdout (snd (fetch_loop [''Good news today''] [] demo_world)) = [CR # ''Headlines collected: 1'']"
    by (simp add: set_add_def print_def demo_world_def str_nat.simps digit_char_def)
  have i: "is_Exception (Exc ''ResponseException'' ''received 401 HTTP response'')"
    by (simp add: is_Exception_def)
  show ?thesis
    using fetch_headlines_fails_soft [OF a i, of demo_world] a b c i by simp
qed

text \<open>
  C7. When the listing ends without an error, the list \<open>fetch_headlines\<close> returns contains
  each distinct title of the listing exactly once and nothing else, whatever the order in
  which the set hands out its elements.
\<close>

theorem fetch_headlines_deduplicates:
  assumes "reddit_new e subreddit limit = (titles, None)"
    and "\<forall>s. mset (set_order e s) = mset s"
  shows "\<exists>headlines. fst (fetch_headlines e subreddit limit w) = Inr headlines
    \<and> distinct headlines \<and> set headlines = set titles
    \<and> (\<forall>t. count_list headlines t = (if t \<in> set titles then 1 else 0))"
proof -
  let ?s = "fst (fetch_loop titles [] w)"
  have s: "distinct ?s \<and> set ?s = set titles"
    using fetch_loop_set [of "[]" titles w] by simp
  have "mset (set_order e ?s) = mset ?s"
    using assms(2) by simp
  then have o: "distinct (set_order e ?s) \<and> set (set_order e ?s) = set titles"
    using s by (metis mset_eq_setD mset_eq_imp_distinct_iff)
  then have "count_list (set_order e ?s) t = (if t \<in> set titles then 1 else 0)" for t
    using count_list_distinct [of "set_order e ?s" t] by simp
  moreover have "fst (fetch_headlines e subreddit limit w) = Inr (set_order e ?s)"
    using fetch_steps_returned [OF assms(1)] by (simp add: fetch_headlines_def)
  ultimately show ?thesis
    using o by simp
qed

theorem fetch_headlines_deduplicates_witness:
  "reddit_new demo_env ''politics'' 500
     = ([''Good news today'', ''Bad news today'', ''Good news today'', ''Broken''], None)
   \<and> (\<forall>s. mset (set_order demo_env s) = mset s)
   \<and> fst (fetch_headlines demo_env ''politics'' 500 demo_world)
       = Inr [''Broken'', ''Bad news today'', ''Good news today'']
   \<and> (\<exists>headlines. fst (fetch_headlines demo_env ''politics'' 500 demo_world) = Inr headlines
         \<and> distinct headlines
         \<and> set headlines = set [''Good news today'', ''Bad news today'', ''Good news today'', ''Broken'']
         \<and> (\<forall>t. count_list headlines t =
               (if t \<in> set [''Good news today'', ''Bad news today'', ''Good news today'', ''Broken'']
                then 1 else 0)))"
proof -
  have a: "reddit_new demo_env ''politics'' 500
     = ([''Good news today'', ''Bad news today'', ''Good news today'', ''Broken''], None)"
    by (simp add: demo_env_def)
  have b: "\<forall>s. mset (set_order demo_env s) = mset s"
    by (simp add: demo_env_def)
  have "fst (fetch_loop [''Good news today'', ''Bad news today'', ''Good news today'', ''Broken''] [] demo_world)
      = [''Good news today'', ''Bad news today'', ''Broken'']"
    by (simp add: set_add_def)
  then have c: "fst (fetch_headlines demo_env ''politics'' 500 demo_world)
       = Inr [''Broken'', ''Bad news today'', ''Good news today'']"
    using fetch_steps_returned [OF a, of demo_world] by (simp add: fetch_headlines_def demo_env_def)
  show ?thesis
    using fetch_headlines_deduplicates [OF a b, of demo_world] a b c by simp
qed

text \<open>
  C8. \<open>analyze_sentiment\<close> builds one record per headline, in the order of the headlines,
  each made from the scores of its own headline alone, whatever the other headlines and
  the records built before are, and labelled by \<open>_categorize_sentiment\<close>. Every record has
  the keys headline, negative, neutral, positive, compound, label in this order, and for
  a list of headlines that is not empty these are the columns of the frame, in this order;
  for the empty list the frame has no columns and selecting the required columns raises
  \<open>KeyError\<close>, which is why the main block scores only a list that is not empty. The frame
  that the main block hands to \<open>save_to_blob\<close> has the six columns and is the analysis
  without the records that have a missing value: no row handed over has one, the rows
  hold the cells of these records, and the backup file that the main block writes holds
  exactly these rows.
\<close>

theorem analyze_sentiment_table:
  "analyze_loop sia headlines results = results @ map (headline_record sia) headlines
   \<and> records (analyze_sentiment sia headlines) = map (headline_record sia) headlines
   \<and> list_all (\<lambda>d. map fst d = [''headline'', ''negative'', ''neutral'', ''positive'', ''compound'', ''label''])
        (records (analyze_sentiment sia headlines))
   \<and> columns (analyze_sentiment sia headlines)
       = (if headlines = [] then []
          else [''headline'', ''negative'', ''neutral'', ''positive'', ''compound'', ''label''])
   \<and> prepare_frame e [] = Inl (Exc ''KeyError'' ''headline'')
   \<and> (headlines \<noteq> [] \<longrightarrow> (\<exists>df. prepare_frame e headlines = Inr df))
   \<and> (\<forall>df. prepare_frame e headlines = Inr df \<longrightarrow>
         columns df = [''headline'', ''negative'', ''neutral'', ''positive'', ''compound'', ''label'']
         \<and> records df = filter (\<lambda>d. list_all (\<lambda>v. \<not> cell_isna v) (map snd d))
                           (map (headline_record (polarity_scores e)) headlines)
         \<and> (\<forall>r \<in> set (frame_rows (float_str e) df). \<not> row_has_na r)
         \<and> map row_cells (frame_rows (float_str e) df) = map (map snd) (records df)
         \<and> (fst (fetch_headlines e ''politics'' 500 (print (''Fetching Reddit headlines...'' @ [LF]) w))
               = Inr headlines \<and> headlines \<noteq> [] \<and> open_write_error e = None \<longrightarrow>
             files (snd (main e w)) backup_path
               = Some (csv_text (float_str e) (cleaned (frame_rows (float_str e) df)))))"
proof -
  have keys: "list_all (\<lambda>d. map fst d = [''headline'', ''negative'', ''neutral'', ''positive'', ''compound'', ''label''])
        (records (analyze_sentiment sia headlines))"
    using keys_headline_record [of sia]
    by (simp add: analyze_sentiment_records list_all_iff required_columns_def)
  have cols: "columns (analyze_sentiment sia headlines)
       = (if headlines = [] then []
          else [''headline'', ''negative'', ''neutral'', ''positive'', ''compound'', ''label''])"
    by (simp add: analyze_sentiment_columns required_columns_def)
  have some: "\<exists>df. prepare_frame e headlines = Inr df" if "headlines \<noteq> []"
    using prepare_frame_dropna [OF that, of e] by simp
  have prepared:
    "columns df = [''headline'', ''negative'', ''neutral'', ''positive'', ''compound'', ''label'']
     \<and> records df = filter (\<lambda>d. list_all (\<lambda>v. \<not> cell_isna v) (map snd d))
                       (map (headline_record (polarity_scores e)) headlines)
     \<and> (\<forall>r \<in> set (frame_rows (float_str e) df). \<not> row_has_na r)
     \<and> map row_cells (frame_rows (float_str e) df) = map (map snd) (records df)
     \<and> (fst (fetch_headlines e ''politics'' 500 (print (''Fetching Reddit headlines...'' @ [LF]) w))
           = Inr headlines \<and> headlines \<noteq> [] \<and> open_write_error e = None \<longrightarrow>
         files (snd (main e w)) backup_path
           = Some (csv_text (float_str e) (cleaned (frame_rows (float_str e) df))))"
    if p: "prepare_frame e headlines = Inr df" for df
  proof -
    note r = prepare_frame_records [OF p]
    have "\<forall>r \<in> set (frame_rows (float_str e) df). \<not> row_has_na r"
      using r by (intro frame_rows_no_na) simp
    moreover have "map row_cells (frame_rows (float_str e) df) = map (map snd) (records df)"
      using r by (intro frame_rows_headline_records) simp
    ultimately show ?thesis
      using r main_backup [of e w headlines df] p by (simp add: required_columns_def)
  qed
  show ?thesis
    using keys cols some prepared
    by (simp add: analyze_loop_map analyze_sentiment_records prepare_frame_empty)
qed

theorem analyze_sentiment_table_witness:
  "prepare_frame demo_env [''Broken'', ''Bad news today'', ''Good news today'']
     = Inr \<lparr>columns = [''headline'', ''negative'', ''neutral'', ''positive'', ''compound'', ''label''],
            records =
              [[(''headline'', Str ''Bad news today''), (''negative'', Num (Float (1 / 2))),
                (''neutral'', Num (Float (1 / 2))), (''positive'', Num (Float 0)),
                (''compound'', Num (Float (- 1 / 2))), (''label'', Str ''Negative'')],
               [(''headline'', Str ''Good news today''), (''negative'', Num (Float 0)),
                (''neutral'', Num (Float (1 / 2))), (''positive'', Num (Float (1 / 2))),
                (''compound'', Num (Float (1 / 2))), (''label'', Str ''Positive'')]]\<rparr>
   \<and> frame_rows (float_str demo_env)
        \<lparr>columns = [''headline'', ''negative'', ''neutral'', ''positive'', ''compound'', ''label''],
         records =
              [[(''headline'', Str ''Bad news today''), (''negative'', Num (Float (1 / 2))),
                (''neutral'', Num (Float (1 / 2))), (''positive'', Num (Float 0)),
                (''compound'', Num (Float (- 1 / 2))), (''label'', Str ''Negative'')],
               [(''headline'', Str ''Good news today''), (''negative'', Num (Float 0)),
                (''neutral'', Num (Float (1 / 2))), (''positive'', Num (Float (1 / 2))),
                (''compound'', Num (Float (1 / 2))), (''label'', Str ''Positive'')]]\<rparr>
       = [\<lparr>headline = ''Bad news today'', negative = Float (1 / 2), neutral = Float (1 / 2),
           positive = Float 0, compound = Float (- 1 / 2), label = ''Negative''\<rparr>,
          \<lparr>headline = ''Good news today'', negative = Float 0, neutral = Float (1 / 2),
           positive = Float (1 / 2), compound = Float (1 / 2), label = ''Positive''\<rparr>]
   \<and> list_all (\<lambda>r. \<not> row_has_na r)
        [\<lparr>headline = ''Bad news today'', negative = Float (1 / 2), neutral = Float (1 / 2),
          positive = Float 0, compound = Float (- 1 / 2), label = ''Negative''\<rparr>,
         \<lparr>headline = ''Good news today'', negative = Float 0, neutral = Float (1 / 2),
          positive = Float (1 / 2), compound = Float (1 / 2), label = ''Positive''\<rparr>]
   \<and> fst (fetch_headlines demo_env ''politics'' 500 (print (''Fetching Reddit headlines...'' @ [LF]) demo_world))
       = Inr [''Broken'', ''Bad news today'', ''Good news today'']
   \<and> open_write_error demo_env = None
   \<and> files (snd (main demo_env demo_world)) backup_path
       = Some (csv_text demo_float_str
           (cleaned [\<lparr>headline = ''Bad news today'', negative = Float (1 / 2), neutral = Float (1 / 2),
             positive = Float 0, compound = Float (- 1 / 2), label = ''Negative''\<rparr>,
            \<lparr>headline = ''Good news today'', negative = Float 0, neutral = Float (1 / 2),
             positive = Float (1 / 2), compound = Float (1 / 2), label = ''Positive''\<rparr>]))"
proof -
  let ?hs = "[''Broken'', ''Bad news today'', ''Good news today'']"
  let ?df = "\<lparr>columns = [''headline'', ''negative'', ''neutral'', ''positive'', ''compound'', ''label''],
         records =
              [[(''headline'', Str ''Bad news today''), (''negative'', Num (Float (1 / 2))),
                (''neutral'', Num (Float (1 / 2))), (''positive'', Num (Float 0)),
                (''compound'', Num (Float (- 1 / 2))), (''label'', Str ''Negative'')],
               [(''headline'', Str ''Good news today''), (''negative'', Num (Float 0)),
                (''neutral'', Num (Float (1 / 2))), (''positive'', Num (Float (1 / 2))),
                (''compound'', Num (Float (1 / 2))), (''label'', Str ''Positive'')]]\<rparr>"
  let ?rows = "[\<lparr>headline = ''Bad news today'', negative = Float (1 / 2), neutral = Float (1 / 2),
           positive = Float 0, compound = Float (- 1 / 2), label = ''Negative''\<rparr>,
          \<lparr>headline = ''Good news today'', negative = Float 0, neutral = Float (1 / 2),
           positive = Float (1 / 2), compound = Float (1 / 2), label = ''Positive''\<rparr>]"
  have p: "polarity_scores demo_env = demo_scores" and f: "float_str demo_env = demo_float_str"
    and o: "open_write_error demo_env = None"
    by (simp_all add: demo_env_def)
  have "filter (\<lambda>d. list_all (\<lambda>v. \<not> cell_isna v) (map snd d)) (map (headline_record demo_scores) ?hs)
      = records ?df"
    by (simp add: headline_record_def demo_scores_def categorize_sentiment_def)
  then have a: "prepare_frame demo_env ?hs = Inr ?df"
    using prepare_frame_dropna [of ?hs demo_env] p by (simp add: required_columns_def)
  have b: "frame_rows (float_str demo_env) ?df = ?rows"
    by (simp add: frame_rows_def dict_get_def)
  have c: "list_all (\<lambda>r. \<not> row_has_na r) ?rows"
    by (simp add: row_has_na_def)
  have l: "reddit_new demo_env ''politics'' 500
     = ([''Good news today'', ''Bad news today'', ''Good news today'', ''Broken''], None)"
    by (simp add: demo_env_def)
  have "fst (fetch_loop [''Good news today'', ''Bad news today'', ''Good news today'', ''Broken''] []
          (print (''Fetching Reddit headlines...'' @ [LF]) demo_world))
      = [''Good news today'', ''Bad news today'', ''Broken'']"
    by (simp add: set_add_def)
  then have h: "fst (fetch_headlines demo_env ''politics'' 500
          (print (''Fetching Reddit headlines...'' @ [LF]) demo_world)) = Inr ?hs"
    using fetch_steps_returned [OF l, of "print (''Fetching Reddit headlines...'' @ [LF]) demo_world"]
    by (simp add: fetch_headlines_def demo_env_def)
  have "files (snd (main demo_env demo_world)) backup_path
       = Some (csv_text (float_str demo_env) (cleaned (frame_rows (float_str demo_env) ?df)))"
    using analyze_sentiment_table [of demo_scores ?hs "[]" demo_env demo_world] a h o by simp
  then show ?thesis
    using a b c h o f by simp
qed

text \<open>
  C9. The backup is written under the constant file name \<open>reddit_news.csv\<close> in the directory
  \<open>reddit_data_backups\<close>, with no timestamp. When the file can be opened, the files after
  \<open>save_to_blob\<close> are the files before with that one path holding the CSV text of this run's
  frame: what the path held before is replaced, nothing is appended, and a run that
  cannot open the file leaves the disk as it was. The upload does not depend on what the
  container holds: when no step raises, the save succeeds, and after a successful save the
  container \<open>reddit-sentiment-data\<close> holds this run's text under the blob name
  \<open>reddit_news.csv\<close>, in place of the blob of that name that was there before, if any.
\<close>

theorem backup_replaced_under_fixed_name:
  "generate_filename = ''reddit_news.csv''
   \<and> (open_write_error e = None \<longrightarrow>
        files (snd (snd (save_to_blob e df w)))
          = (files w)(''reddit_data_backups/reddit_news.csv'' \<mapsto> csv_text (float_str e) (cleaned df)))
   \<and> (open_write_error e \<noteq> None \<longrightarrow> files (snd (snd (save_to_blob e df w))) = files w)
   \<and> (steps_succeed e df w \<longrightarrow> fst (save_to_blob e df w) = Inr True)
   \<and> (fst (save_to_blob e df w) = Inr True \<longrightarrow>
        containers (snd (snd (save_to_blob e df w)))
          = (containers w)(''reddit-sentiment-data'' \<mapsto>
              (case containers w ''reddit-sentiment-data'' of None \<Rightarrow> Map.empty | Some blobs \<Rightarrow> blobs)
                (''reddit_news.csv'' \<mapsto> csv_text (float_str e) (cleaned df))))"
proof -
  have "fst (save_to_blob e df w) = Inr True \<Longrightarrow> fst (save_steps e df generate_filename w) = Inr True"
    by (auto simp: save_to_blob_def split: prod.splits sum.splits if_splits)
  then show ?thesis
    using save_steps_files [of e df w] save_steps_files_unwritten [of e _ df w]
      save_steps_containers [of e df w] save_to_blob_True [of e df w]
    by (auto simp: save_to_blob_files save_to_blob_containers backup_path_def
        container_name_def generate_filename_def)
qed

theorem backup_replaced_under_fixed_name_witness:
  "open_write_error demo_env = None
   \<and> files demo_world ''reddit_data_backups/reddit_news.csv'' = Some ''old''
   \<and> files (snd (snd (save_to_blob demo_env [demo_row ''Good news today''] demo_world)))
        ''reddit_data_backups/reddit_news.csv''
       = Some (csv_text demo_float_str (cleaned [demo_row ''Good news today'']))
   \<and> files (snd (snd (save_to_blob demo_env [demo_row ''Bad news today'']
          (snd (snd (save_to_blob demo_env [demo_row ''Good news today''] demo_world))))))
        ''reddit_data_backups/reddit_news.csv''
       = Some (csv_text demo_float_str (cleaned [demo_row ''Bad news today'']))
   \<and> open_write_error failing_write_env \<noteq> None
   \<and> files (snd (snd (save_to_blob failing_write_env [demo_row ''Good news today''] demo_world)))
       = files demo_world
   \<and> steps_succeed demo_env [demo_row ''Good news today''] demo_world
   \<and> fst (save_to_blob demo_env [demo_row ''Good news today''] demo_world) = Inr True
   \<and> containers (snd (snd (save_to_blob demo_env [demo_row ''Good news today''] demo_world)))
        ''reddit-sentiment-data''
       = Some [''reddit_news.csv'' \<mapsto> csv_text demo_float_str (cleaned [demo_row ''Good news today''])]
   \<and> steps_succeed demo_env [demo_row ''Bad news today'']
        (snd (snd (save_to_blob demo_env [demo_row ''Good news today''] demo_world)))
   \<and> fst (save_to_blob demo_env [demo_row ''Bad news today'']
          (snd (snd (save_to_blob demo_env [demo_row ''Good news today''] demo_world)))) = Inr True
   \<and> containers (snd (snd (save_to_blob demo_env [demo_row ''Bad news today'']
          (snd (snd (save_to_blob demo_env [demo_row ''Good news today''] demo_world))))))
        ''reddit-sentiment-data''
       = Some [''reddit_news.csv'' \<mapsto> csv_text demo_float_str (cleaned [demo_row ''Bad news today''])]"
proof -
  let ?df = "[demo_row ''Good news today'']"
  let ?df2 = "[demo_row ''Bad news today'']"
  let ?w1 = "snd (snd (save_to_blob demo_env ?df demo_world))"
  have o: "open_write_error demo_env = None" and f: "float_str demo_env = demo_float_str"
    by (simp_all add: demo_env_def)
  have n: "open_write_error failing_write_env \<noteq> None"
    by (simp add: failing_write_env_def)
  have old: "files demo_world ''reddit_data_backups/reddit_news.csv'' = Some ''old''"
    and none: "containers demo_world ''reddit-sentiment-data'' = None"
    by (simp_all add: demo_world_def backup_path_def)
  have "\<forall>r \<in> set ?df. plain_cells demo_float_str r \<and> DQ \<notin> set (headline r) \<and> CHR '','' \<notin> set (headline r)"
    by (simp add: plain_cells_def plain_text_def demo_row_def demo_float_str_def)
  then have "list_all (\<lambda>line. py_count separator line = 5) (py_lines (csv_text demo_float_str (cleaned ?df)))"
    by (rule plain_frame_valid)
  then have s1: "steps_succeed demo_env ?df v" for v
    by (simp add: steps_succeed_def demo_env_def)
  have "\<forall>r \<in> set ?df2. plain_cells demo_float_str r \<and> DQ \<notin> set (headline r) \<and> CHR '','' \<notin> set (headline r)"
    by (simp add: plain_cells_def plain_text_def demo_row_def demo_float_str_def)
  then have "list_all (\<lambda>line. py_count separator line = 5) (py_lines (csv_text demo_float_str (cleaned ?df2)))"
    by (rule plain_frame_valid)
  then have s2: "steps_succeed demo_env ?df2 v" for v
    by (simp add: steps_succeed_def demo_env_def)
  note first = backup_replaced_under_fixed_name [of demo_env ?df demo_world]
  have t1: "fst (save_to_blob demo_env ?df demo_world) = Inr True"
    using first s1 by simp
  have c1: "containers ?w1 ''reddit-sentiment-data''
      = Some [''reddit_news.csv'' \<mapsto> csv_text demo_float_str (cleaned ?df)]"
    using first t1 none f by simp
  note second = backup_replaced_under_fixed_name [of demo_env ?df2 ?w1]
  have t2: "fst (save_to_blob demo_env ?df2 ?w1) = Inr True"
    using second s2 by simp
  have c2: "containers (snd (snd (save_to_blob demo_env ?df2 ?w1))) ''reddit-sentiment-data''
      = Some [''reddit_news.csv'' \<mapsto> csv_text demo_float_str (cleaned ?df2)]"
    using second t2 c1 f by simp
  show ?thesis
    using first second backup_replaced_under_fixed_name [of failing_write_env ?df demo_world]
      o f n old s1 s2 t1 t2 c1 c2
    by simp
qed

text \<open>
  C10. \<open>save_to_blob\<close> changes the caller's frame: whatever the outcome of the save, the frame
  afterwards holds the cleaned text (quotes doubled, newlines and carriage returns turned
  into spaces, whitespace trimmed) in place of each headline. A second save of the same
  frame cleans the cleaned text again, so that every double quote of the original headline
  is there four times; \<open>say "hi"\<close> becomes \<open>say """"hi""""\<close>.
\<close>

theorem save_cleans_frame_in_place:
  "fst (snd (save_to_blob e df w)) = map (\<lambda>row. row\<lparr>headline := clean_headline (headline row)\<rparr>) df
   \<and> clean_headline h = trim (newlines_to_spaces (double_quotes h))
   \<and> fst (snd (save_to_blob e' (fst (snd (save_to_blob e df w))) w'))
       = map (\<lambda>row. row\<lparr>headline := clean_headline (clean_headline (headline row))\<rparr>) df
   \<and> count_list (clean_headline (clean_headline h)) DQ = 4 * count_list h DQ
   \<and> clean_headline (clean_headline (''say '' @ [DQ] @ ''hi'' @ [DQ]))
       = ''say '' @ [DQ, DQ, DQ, DQ] @ ''hi'' @ [DQ, DQ, DQ, DQ]"
proof -
  have "clean_headline (clean_headline (''say '' @ [DQ] @ ''hi'' @ [DQ]))
       = ''say '' @ [DQ, DQ, DQ, DQ] @ ''hi'' @ [DQ, DQ, DQ, DQ]"
    by (simp add: clean_headline_def py_replace_def py_strip_def py_isspace_def)
  moreover have "count_list (clean_headline (clean_headline h)) DQ = 4 * count_list h DQ"
    by (simp add: count_clean_headline)
  moreover have "clean_headline h = trim (newlines_to_spaces (double_quotes h))"
    by (simp add: clean_refines cleaning_rule_def)
  moreover have "fst (snd (save_to_blob e' (fst (snd (save_to_blob e df w))) w'))
       = map (\<lambda>row. row\<lparr>headline := clean_headline (clean_headline (headline row))\<rparr>) df"
    by (simp add: save_to_blob_frame cleaned_def comp_def)
  moreover have "fst (snd (save_to_blob e df w))
       = map (\<lambda>row. row\<lparr>headline := clean_headline (headline row)\<rparr>) df"
    by (simp add: save_to_blob_frame cleaned_def)
  ultimately show ?thesis
    by blast
qed

end
